theory Spec2Isabelle
  imports Complex_Main "HOL-Library.AList"
begin

section \<open>Python values\<close>

text \<open>
  The two scripts (\<^verbatim>\<open>scripts/etl.py\<close> and \<^verbatim>\<open>scripts/historical_backfill.py\<close>) work on the
  values that \<^verbatim>\<open>response.json()\<close> returns. \<open>JNull\<close> is Python's \<^verbatim>\<open>None\<close>. \<open>JNaN\<close> is the
  float \<^verbatim>\<open>nan\<close>, a value of its own: pandas puts it where a value is missing, and the
  parser of \<^verbatim>\<open>response.json()\<close> accepts the literal \<^verbatim>\<open>NaN\<close>. \<open>JNum\<close> carries the value of an
  \<^verbatim>\<open>int\<close> or of a finite \<^verbatim>\<open>float\<close>; the two infinities are left out. Where the program
  computes with floats (the means of pandas) or hands a number to the database, the
  result is a parameter of the model and not a rational computed here. A dictionary is an
  association list, of distinct keys as the parser leaves them, read with \<open>map_of\<close> and
  written with \<open>AList.update\<close>, which keeps Python's insertion order.
\<close>

datatype json =
    JNull
  | JBool bool
  | JNum rat
  | JNaN
  | JStr string
  | JArr "json list"
  | JObj "(string \<times> json) list"

datatype error =
    KeyError
  | IndexError
  | TypeError
  | AttributeError
  | ValueError
  | MultipleResultsFound
  | StatementError

type_synonym date = int

record datetime =
  ordinal :: date
  microseconds :: nat

datatype pyval = PDate date | PJson json | PInt nat

type_synonym reading = "(string \<times> pyval) list"

definition and_then :: "error + 'a \<Rightarrow> ('a \<Rightarrow> error + 'b) \<Rightarrow> error + 'b" where
  "and_then m f = (case m of Inl e \<Rightarrow> Inl e | Inr v \<Rightarrow> f v)"

text \<open>\<^verbatim>\<open>not x\<close> is \<open>\<not> truthy x\<close>.\<close>

fun truthy :: "json \<Rightarrow> bool" where
  "truthy JNull = False"
| "truthy (JBool b) = b"
| "truthy (JNum q) = (q \<noteq> 0)"
| "truthy JNaN = True"
| "truthy (JStr s) = (s \<noteq> [])"
| "truthy (JArr xs) = (xs \<noteq> [])"
| "truthy (JObj kvs) = (kvs \<noteq> [])"

text \<open>\<^verbatim>\<open>x.get(key, default)\<close>: only a dictionary has the method.\<close>

fun dict_get :: "json \<Rightarrow> string \<Rightarrow> json \<Rightarrow> error + json" where
  "dict_get (JObj kvs) k dflt = Inr (case map_of kvs k of None \<Rightarrow> dflt | Some v \<Rightarrow> v)"
| "dict_get _ k dflt = Inl AttributeError"

text \<open>
  \<^verbatim>\<open>x[0]\<close>: the first element of a list or string, \<^verbatim>\<open>IndexError\<close> when it is empty; the
  keys of a parsed JSON object are strings, so \<^verbatim>\<open>0\<close> is never one of them; every other
  value is not subscriptable.
\<close>

fun item0 :: "json \<Rightarrow> error + json" where
  "item0 (JArr []) = Inl IndexError"
| "item0 (JArr (x # xs)) = Inr x"
| "item0 (JStr []) = Inl IndexError"
| "item0 (JStr (c # cs)) = Inr (JStr [c])"
| "item0 (JObj kvs) = Inl KeyError"
| "item0 _ = Inl TypeError"

text \<open>\<^verbatim>\<open>for item in x\<close>: the elements of a list, the keys of a dictionary, the characters of a string.\<close>

fun iter_items :: "json \<Rightarrow> error + json list" where
  "iter_items (JArr xs) = Inr xs"
| "iter_items (JObj kvs) = Inr (map JStr (remdups (map fst kvs)))"
| "iter_items (JStr s) = Inr (map (\<lambda>c. JStr [c]) s)"
| "iter_items _ = Inl TypeError"

text \<open>A list or a dictionary cannot be the key of a dictionary (\<^verbatim>\<open>TypeError: unhashable type\<close>).\<close>

fun hashable :: "json \<Rightarrow> bool" where
  "hashable (JArr xs) = False"
| "hashable (JObj kvs) = False"
| "hashable _ = True"

fun map_err :: "('a \<Rightarrow> error + 'b) \<Rightarrow> 'a list \<Rightarrow> error + 'b list" where
  "map_err f [] = Inr []"
| "map_err f (x # xs) =
     (case f x of
        Inl e \<Rightarrow> Inl e
      | Inr y \<Rightarrow> (case map_err f xs of Inl e \<Rightarrow> Inl e | Inr ys \<Rightarrow> Inr (y # ys)))"

section \<open>The merge of the current conditions (etl.py)\<close>

text \<open>
  Lines 82 to 85 of \<^verbatim>\<open>transform_data\<close>, the same as lines 71 to 74 of
  \<^verbatim>\<open>transform_historical_data\<close>: the three daily aggregates of the weather response.
\<close>

definition daily_value :: "json \<Rightarrow> string \<Rightarrow> error + json" where
  "daily_value daily_weather k = and_then (dict_get daily_weather k (JArr [JNull])) item0"

definition weather_fields :: "json \<Rightarrow> error + (json \<times> json \<times> json)" where
  "weather_fields weather_data =
     and_then (dict_get weather_data ''daily'' (JObj [])) (\<lambda>daily_weather.
     and_then (daily_value daily_weather ''temperature_2m_mean'') (\<lambda>temp.
     and_then (daily_value daily_weather ''precipitation_sum'') (\<lambda>precip.
     and_then (daily_value daily_weather ''wind_speed_10m_max'') (\<lambda>wind.
     Inr (temp, precip, wind)))))"

text \<open>
  \<^verbatim>\<open>next((item for item in ... if item.get('code') == 'uaqi'), {})\<close>: the generator stops at
  the first match, so the items after it are never looked at.
\<close>

fun first_uaqi :: "json list \<Rightarrow> error + json" where
  "first_uaqi [] = Inr (JObj [])"
| "first_uaqi (item # rest) =
     (case dict_get item ''code'' JNull of
        Inl e \<Rightarrow> Inl e
      | Inr c \<Rightarrow> if c = JStr ''uaqi'' then Inr item else first_uaqi rest)"

text \<open>
  \<^verbatim>\<open>{p.get('code'): p.get('concentration', {}).get('value') for p in ...}\<close>: key and value
  are evaluated, then the key is hashed; a later entry overwrites an earlier one with the
  same code. The table is only ever read at string keys, so Python's identification of
  the keys \<^verbatim>\<open>1\<close>, \<^verbatim>\<open>1.0\<close> and \<^verbatim>\<open>True\<close> cannot be observed.
\<close>

definition pollutant_entry :: "json \<Rightarrow> error + (json \<times> json)" where
  "pollutant_entry p =
     and_then (dict_get p ''code'' JNull) (\<lambda>code.
     and_then (dict_get p ''concentration'' (JObj [])) (\<lambda>concentration.
     and_then (dict_get concentration ''value'' JNull) (\<lambda>v.
     if hashable code then Inr (code, v) else Inl TypeError)))"

fun pollutant_dict :: "json list \<Rightarrow> (json \<rightharpoonup> json) \<Rightarrow> error + (json \<rightharpoonup> json)" where
  "pollutant_dict [] acc = Inr acc"
| "pollutant_dict (p # ps) acc =
     (case pollutant_entry p of
        Inl e \<Rightarrow> Inl e
      | Inr (code, v) \<Rightarrow> pollutant_dict ps (acc(code \<mapsto> v)))"

definition table_get :: "(json \<rightharpoonup> json) \<Rightarrow> string \<Rightarrow> json" where
  "table_get t k = (case t (JStr k) of None \<Rightarrow> JNull | Some v \<Rightarrow> v)"

text \<open>
  The body of the \<^verbatim>\<open>try\<close> block of \<^verbatim>\<open>transform_data\<close>. The clock read by
  \<^verbatim>\<open>datetime.now()\<close> is the argument \<open>clock\<close>.
\<close>

definition transform_body :: "datetime \<Rightarrow> json \<Rightarrow> json \<Rightarrow> error + reading" where
  "transform_body clock aqi_data weather_data =
     and_then (weather_fields weather_data) (\<lambda>(temp, precip, wind).
     and_then (dict_get aqi_data ''indexes'' (JArr [])) (\<lambda>indexes.
     and_then (iter_items indexes) (\<lambda>items.
     and_then (first_uaqi items) (\<lambda>aqi_index.
     and_then (dict_get aqi_index ''aqi'' JNull) (\<lambda>aqi_value.
     and_then (dict_get aqi_data ''pollutants'' (JArr [])) (\<lambda>plist.
     and_then (iter_items plist) (\<lambda>ps.
     and_then (pollutant_dict ps Map.empty) (\<lambda>pollutants.
     Inr [(''reading_date'', PDate (ordinal clock)),
          (''aqi'', PJson aqi_value),
          (''pm10'', PJson (table_get pollutants ''pm10'')),
          (''pm25'', PJson (table_get pollutants ''pm25'')),
          (''o3'', PJson (table_get pollutants ''o3'')),
          (''no2'', PJson (table_get pollutants ''no2'')),
          (''co'', PJson (table_get pollutants ''co'')),
          (''so2'', PJson (table_get pollutants ''so2'')),
          (''temperature_celsius'', PJson temp),
          (''precipitation_mm'', PJson precip),
          (''wind_speed_kmh'', PJson wind)]))))))))"

text \<open>\<^verbatim>\<open>except (KeyError, IndexError, TypeError)\<close>: every other exception leaves the function.\<close>

definition caught :: "error \<Rightarrow> bool" where
  "caught e = (e = KeyError \<or> e = IndexError \<or> e = TypeError)"

definition transform_data :: "datetime \<Rightarrow> json \<Rightarrow> json \<Rightarrow> error + reading option" where
  "transform_data clock aqi_data weather_data =
     (if \<not> truthy aqi_data \<or> \<not> truthy weather_data then Inr None
      else case transform_body clock aqi_data weather_data of
             Inl e \<Rightarrow> if caught e then Inr None else Inl e
           | Inr r \<Rightarrow> Inr (Some r))"

section \<open>The merge of the hourly history (historical_backfill.py)\<close>

text \<open>
  What the model takes from pandas. A \<^verbatim>\<open>DataFrame\<close> built from a list of dictionaries
  has one row per dictionary and one column per key that occurs in any of them; a row
  without the key holds \<^verbatim>\<open>nan\<close> there. \<^verbatim>\<open>df[c]\<close> raises \<^verbatim>\<open>KeyError\<close> when there is no
  column \<open>c\<close>. \<^verbatim>\<open>Series.apply\<close> calls the function on every cell, and an exception of
  the function leaves it. \<^verbatim>\<open>mean\<close> skips the cells that hold \<^verbatim>\<open>None\<close> or \<^verbatim>\<open>nan\<close>, and is
  \<^verbatim>\<open>nan\<close> when it has skipped them all. Three behaviours are parameters: the frame built
  from anything but a list of dictionaries; the mean of a column of numbers, booleans
  (which count as \<open>1\<close> and \<open>0\<close>) and missing cells, at least one of them not missing,
  which pandas computes in 64-bit floating point (the parameter is given the column with
  \<open>None\<close> at the missing cells, and may raise, as \<^verbatim>\<open>OverflowError\<close> is raised for an integer
  beyond the range of a float); and the mean of a column that holds any other cell.
\<close>

record pandas =
  frame_other :: "json \<Rightarrow> error + (string \<rightharpoonup> json list)"
  mean_float :: "rat option list \<Rightarrow> error + json"
  mean_other :: "json list \<Rightarrow> error + json"

fun obj_fields :: "json \<Rightarrow> (string \<times> json) list option" where
  "obj_fields (JObj kvs) = Some kvs"
| "obj_fields _ = None"

fun rows_of :: "json \<Rightarrow> (string \<times> json) list list option" where
  "rows_of (JArr xs) = those (map obj_fields xs)"
| "rows_of _ = None"

definition cell :: "string \<Rightarrow> (string \<times> json) list \<Rightarrow> json" where
  "cell c row = (case map_of row c of None \<Rightarrow> JNaN | Some v \<Rightarrow> v)"

definition frame_of_rows :: "(string \<times> json) list list \<Rightarrow> (string \<rightharpoonup> json list)" where
  "frame_of_rows rows c =
     (if list_ex (\<lambda>row. c \<in> set (map fst row)) rows then Some (map (cell c) rows) else None)"

definition DataFrame :: "pandas \<Rightarrow> json \<Rightarrow> error + (string \<rightharpoonup> json list)" where
  "DataFrame pd data =
     (case rows_of data of
        Some rows \<Rightarrow> Inr (frame_of_rows rows)
      | None \<Rightarrow> frame_other pd data)"

definition column :: "(string \<rightharpoonup> json list) \<Rightarrow> string \<Rightarrow> error + json list" where
  "column df c = (case df c of None \<Rightarrow> Inl KeyError | Some cells \<Rightarrow> Inr cells)"

text \<open>
  \<^verbatim>\<open>next((idx.get('aqi') for idx in indexes if idx.get('code') == 'uaqi'), None)\<close> and the
  nested function \<^verbatim>\<open>get_aqi\<close> around it.
\<close>

fun first_uaqi_aqi :: "json list \<Rightarrow> error + json" where
  "first_uaqi_aqi [] = Inr JNull"
| "first_uaqi_aqi (idx # rest) =
     (case dict_get idx ''code'' JNull of
        Inl e \<Rightarrow> Inl e
      | Inr c \<Rightarrow> if c = JStr ''uaqi'' then dict_get idx ''aqi'' JNull else first_uaqi_aqi rest)"

fun get_aqi :: "json \<Rightarrow> error + json" where
  "get_aqi (JArr indexes) = first_uaqi_aqi indexes"
| "get_aqi _ = Inr JNull"

fun get_pollutant_value :: "json \<Rightarrow> string \<Rightarrow> error + json" where
  "get_pollutant_value (JArr pollutants) code =
     and_then (pollutant_dict pollutants Map.empty) (\<lambda>p_dict. Inr (table_get p_dict code))"
| "get_pollutant_value _ code = Inr JNull"

text \<open>The mean of one column.\<close>

fun missing :: "json \<Rightarrow> bool" where
  "missing JNull = True"
| "missing JNaN = True"
| "missing _ = False"

fun number :: "json \<Rightarrow> rat option" where
  "number (JNum q) = Some q"
| "number (JBool b) = Some (if b then 1 else 0)"
| "number _ = None"

definition numeric_cell :: "json \<Rightarrow> bool" where
  "numeric_cell c = (missing c \<or> number c \<noteq> None)"

definition column_mean :: "pandas \<Rightarrow> json list \<Rightarrow> error + json" where
  "column_mean pd cells =
     (if list_all missing cells then Inr JNaN
      else if list_all numeric_cell cells then mean_float pd (map number cells)
      else mean_other pd cells)"

definition pollutant_codes :: "string list" where
  "pollutant_codes = [''pm10'', ''pm25'', ''o3'', ''no2'', ''co'', ''so2'']"

text \<open>
  Lines 84 and 90: \<^verbatim>\<open>df['indexes'].apply(get_aqi)\<close> and
  \<^verbatim>\<open>df['pollutants'].apply(lambda x: get_pollutant_value(x, p_code))\<close>, the latter once
  for each code of the loop.
\<close>

definition aqi_column :: "(string \<rightharpoonup> json list) \<Rightarrow> error + json list" where
  "aqi_column df = and_then (column df ''indexes'') (map_err get_aqi)"

definition pollutant_column :: "(string \<rightharpoonup> json list) \<Rightarrow> string \<Rightarrow> error + json list" where
  "pollutant_column df p_code =
     and_then (column df ''pollutants'') (map_err (\<lambda>x. get_pollutant_value x p_code))"

definition hourly_columns :: "(string \<rightharpoonup> json list) \<Rightarrow> error + (string \<times> json list) list" where
  "hourly_columns df =
     and_then (aqi_column df) (\<lambda>aqi_col.
     and_then (map_err (\<lambda>p_code. and_then (pollutant_column df p_code) (\<lambda>col. Inr (p_code, col)))
                 pollutant_codes) (\<lambda>cols.
     Inr ((''aqi'', aqi_col) # cols)))"

text \<open>Line 91: \<^verbatim>\<open>df[[...]].mean().to_dict()\<close>.\<close>

definition daily_means :: "pandas \<Rightarrow> (string \<times> json list) list \<Rightarrow> error + (string \<times> json) list" where
  "daily_means pd cols =
     map_err (\<lambda>(name, cells). and_then (column_mean pd cells) (\<lambda>m. Inr (name, m))) cols"

definition averages_get :: "(string \<times> json) list \<Rightarrow> string \<Rightarrow> json" where
  "averages_get daily_averages k = (case map_of daily_averages k of None \<Rightarrow> JNull | Some v \<Rightarrow> v)"

text \<open>
  The body of the \<^verbatim>\<open>try\<close> block of \<^verbatim>\<open>transform_historical_data\<close>; \<open>Inr None\<close> is the
  \<^verbatim>\<open>return None\<close> of line 79.
\<close>

definition historical_body :: "pandas \<Rightarrow> datetime \<Rightarrow> json \<Rightarrow> json \<Rightarrow> error + reading option" where
  "historical_body pd date_to_fetch aqi_history_data weather_data =
     and_then (weather_fields weather_data) (\<lambda>(temp, precip, wind).
     and_then (dict_get aqi_history_data ''hoursInfo'' (JArr [])) (\<lambda>hourly_readings.
     if \<not> truthy hourly_readings then Inr None
     else
       and_then (DataFrame pd hourly_readings) (\<lambda>df.
       and_then (hourly_columns df) (\<lambda>cols.
       and_then (daily_means pd cols) (\<lambda>daily_averages.
       Inr (Some
         [(''reading_date'', PDate (ordinal date_to_fetch)),
          (''aqi'', PJson (averages_get daily_averages ''aqi'')),
          (''pm10'', PJson (averages_get daily_averages ''pm10'')),
          (''pm25'', PJson (averages_get daily_averages ''pm25'')),
          (''o3'', PJson (averages_get daily_averages ''o3'')),
          (''no2'', PJson (averages_get daily_averages ''no2'')),
          (''co'', PJson (averages_get daily_averages ''co'')),
          (''so2'', PJson (averages_get daily_averages ''so2'')),
          (''temperature_celsius'', PJson temp),
          (''precipitation_mm'', PJson precip),
          (''wind_speed_kmh'', PJson wind)]))))))"

text \<open>\<^verbatim>\<open>except Exception\<close>: every exception of the body becomes \<^verbatim>\<open>None\<close>.\<close>

definition transform_historical_data ::
    "pandas \<Rightarrow> datetime \<Rightarrow> json \<Rightarrow> json \<Rightarrow> error + reading option" where
  "transform_historical_data pd date_to_fetch aqi_history_data weather_data =
     (if \<not> truthy aqi_history_data \<or> \<not> truthy weather_data then Inr None
      else case historical_body pd date_to_fetch aqi_history_data weather_data of
             Inl e \<Rightarrow> Inr None
           | Inr r \<Rightarrow> Inr r)"

section \<open>The reading store\<close>

record location_info =
  city :: string
  country :: string
  latitude :: rat
  longitude :: rat

definition LOCATIONS :: "location_info list" where
  "LOCATIONS =
     [\<lparr>city = ''Savannah'', country = ''USA'', latitude = 320809 / 10000, longitude = - 810912 / 10000\<rparr>,
      \<lparr>city = ''Port Wentworth'', country = ''USA'', latitude = 3217 / 100, longitude = - 8117 / 100\<rparr>,
      \<lparr>city = ''Pooler'', country = ''USA'', latitude = 3211 / 100, longitude = - 8125 / 100\<rparr>]"

definition DAYS_OF_HISTORY :: nat where
  "DAYS_OF_HISTORY = 28"

text \<open>
  The two tables, with the columns that the statements of \<^verbatim>\<open>load_data\<close> name. The
  statements that create them are not part of the sources; the spec gives the ten
  measured columns as optional floats and says that inserting a location yields a newly
  assigned identifier: \<open>locations_id_seq\<close> is the sequence behind \<^verbatim>\<open>RETURNING id\<close>. A
  float column of PostgreSQL holds \<^verbatim>\<open>NaN\<close> as a value, which is not \<^verbatim>\<open>NULL\<close>. The tables
  enforce nothing here: that \<open>(location_id, reading_date)\<close> is unique, which
  \<^verbatim>\<open>ON CONFLICT\<close> needs of the table, that a place has one row and that identifiers are
  positive are hypotheses of the theorems (see \<open>store_ok\<close>), and what the theorems say
  about duplicates and references is what the code achieves by itself.
\<close>

datatype float8 = Finite rat | NaN

record location_row = location_info +
  loc_id :: nat

record reading_row =
  location_id :: nat
  reading_date :: date
  aqi :: "float8 option"
  pm10 :: "float8 option"
  pm25 :: "float8 option"
  o3 :: "float8 option"
  no2 :: "float8 option"
  co :: "float8 option"
  so2 :: "float8 option"
  temperature_celsius :: "float8 option"
  precipitation_mm :: "float8 option"
  wind_speed_kmh :: "float8 option"

record store =
  locations :: "location_row list"
  daily_readings :: "reading_row list"
  locations_id_seq :: nat

text \<open>
  A SQLAlchemy connection in its "commit as you go" mode, the only one in which a
  connection has the method \<^verbatim>\<open>commit\<close> that \<^verbatim>\<open>load_data\<close> calls: the first statement begins
  a transaction, \<^verbatim>\<open>commit()\<close> makes its work durable, and leaving the \<^verbatim>\<open>with\<close> block closes
  the connection, which rolls back whatever was not committed. A value drawn from a
  sequence is not given back by a rollback.
\<close>

record connection =
  committed :: store
  working :: store

definition connect :: "store \<Rightarrow> connection" where
  "connect s = \<lparr>committed = s, working = s\<rparr>"

definition commit :: "connection \<Rightarrow> connection" where
  "commit c = c\<lparr>committed := working c\<rparr>"

definition close :: "connection \<Rightarrow> store" where
  "close c = (committed c)\<lparr>locations_id_seq := locations_id_seq (working c)\<rparr>"

text \<open>
  What PostgreSQL makes of a value assigned to a column, parameters of the model: the
  float that a number becomes (\<open>None\<close> when it is out of range), and the text input
  functions of the two column types, which decide whether a string is accepted.
\<close>

record postgres =
  float8_num :: "rat \<Rightarrow> float8 option"
  float8_in :: "string \<Rightarrow> float8 option"
  date_in :: "string \<Rightarrow> date option"

text \<open>
  A bound parameter, as the driver adapts it and the server assigns it to a column:
  \<^verbatim>\<open>None\<close> is \<^verbatim>\<open>NULL\<close>, and the float \<^verbatim>\<open>nan\<close> is the value \<^verbatim>\<open>NaN\<close>. A key of the statement
  that the dictionary lacks, a dictionary (which the driver cannot adapt), and a value the
  column's type does not accept (a boolean or a list in a float column) all fail the
  statement.
\<close>

definition stored :: "float8 option \<Rightarrow> error + float8 option" where
  "stored v = (case v of None \<Rightarrow> Inl StatementError | Some x \<Rightarrow> Inr (Some x))"

fun float_param :: "postgres \<Rightarrow> pyval option \<Rightarrow> error + float8 option" where
  "float_param pg (Some (PJson JNull)) = Inr None"
| "float_param pg (Some (PJson JNaN)) = Inr (Some NaN)"
| "float_param pg (Some (PJson (JNum q))) = stored (float8_num pg q)"
| "float_param pg (Some (PInt n)) = stored (float8_num pg (of_nat n))"
| "float_param pg (Some (PJson (JStr s))) = stored (float8_in pg s)"
| "float_param pg _ = Inl StatementError"

fun date_param :: "postgres \<Rightarrow> pyval option \<Rightarrow> error + date" where
  "date_param pg (Some (PDate d)) = Inr d"
| "date_param pg (Some (PJson (JStr s))) =
     (case date_in pg s of None \<Rightarrow> Inl StatementError | Some d \<Rightarrow> Inr d)"
| "date_param pg _ = Inl StatementError"

fun int_param :: "pyval option \<Rightarrow> error + nat" where
  "int_param (Some (PInt n)) = Inr n"
| "int_param _ = Inl StatementError"

definition reading_params :: "postgres \<Rightarrow> reading \<Rightarrow> error + reading_row" where
  "reading_params pg rd =
     and_then (int_param (map_of rd ''location_id'')) (\<lambda>v_location_id.
     and_then (date_param pg (map_of rd ''reading_date'')) (\<lambda>v_reading_date.
     and_then (float_param pg (map_of rd ''aqi'')) (\<lambda>v_aqi.
     and_then (float_param pg (map_of rd ''pm10'')) (\<lambda>v_pm10.
     and_then (float_param pg (map_of rd ''pm25'')) (\<lambda>v_pm25.
     and_then (float_param pg (map_of rd ''o3'')) (\<lambda>v_o3.
     and_then (float_param pg (map_of rd ''no2'')) (\<lambda>v_no2.
     and_then (float_param pg (map_of rd ''co'')) (\<lambda>v_co.
     and_then (float_param pg (map_of rd ''so2'')) (\<lambda>v_so2.
     and_then (float_param pg (map_of rd ''temperature_celsius'')) (\<lambda>v_temperature.
     and_then (float_param pg (map_of rd ''precipitation_mm'')) (\<lambda>v_precipitation.
     and_then (float_param pg (map_of rd ''wind_speed_kmh'')) (\<lambda>v_wind.
     Inr \<lparr>location_id = v_location_id, reading_date = v_reading_date, aqi = v_aqi,
          pm10 = v_pm10, pm25 = v_pm25, o3 = v_o3, no2 = v_no2, co = v_co, so2 = v_so2,
          temperature_celsius = v_temperature, precipitation_mm = v_precipitation,
          wind_speed_kmh = v_wind\<rparr>))))))))))))"

text \<open>
  \<^verbatim>\<open>SELECT id FROM locations WHERE city = :city AND country = :country\<close> read with
  \<^verbatim>\<open>scalar_one_or_none()\<close>, which raises when more than one row matches.
\<close>

definition same_place :: "location_info \<Rightarrow> location_row \<Rightarrow> bool" where
  "same_place location r = (city r = city location \<and> country r = country location)"

definition select_location_id :: "connection \<Rightarrow> location_info \<Rightarrow> error + nat option" where
  "select_location_id c location =
     (case filter (same_place location) (locations (working c)) of
        [] \<Rightarrow> Inr None
      | [r] \<Rightarrow> Inr (Some (loc_id r))
      | _ \<Rightarrow> Inl MultipleResultsFound)"

text \<open>\<^verbatim>\<open>INSERT INTO locations (city, country, latitude, longitude) ... RETURNING id\<close>.\<close>

definition insert_location :: "connection \<Rightarrow> location_info \<Rightarrow> nat \<times> connection" where
  "insert_location c location =
     (let w = working c; new_id = locations_id_seq w in
      (new_id,
       c\<lparr>working := w\<lparr>locations := locations w @
                         [\<lparr>city = city location, country = country location,
                           latitude = latitude location, longitude = longitude location,
                           loc_id = new_id\<rparr>],
                       locations_id_seq := Suc new_id\<rparr>\<rparr>))"

text \<open>
  \<^verbatim>\<open>INSERT INTO daily_readings ... ON CONFLICT (location_id, reading_date) DO UPDATE SET\<close>
  with the ten assignments of the statement.
\<close>

definition conflicts :: "reading_row \<Rightarrow> reading_row \<Rightarrow> bool" where
  "conflicts x r = (location_id r = location_id x \<and> reading_date r = reading_date x)"

definition do_update :: "reading_row \<Rightarrow> reading_row \<Rightarrow> reading_row" where
  "do_update excluded r =
     r\<lparr>aqi := aqi excluded, pm10 := pm10 excluded, pm25 := pm25 excluded,
       o3 := o3 excluded, no2 := no2 excluded, co := co excluded, so2 := so2 excluded,
       temperature_celsius := temperature_celsius excluded,
       precipitation_mm := precipitation_mm excluded,
       wind_speed_kmh := wind_speed_kmh excluded\<rparr>"

definition upsert_row :: "reading_row \<Rightarrow> reading_row list \<Rightarrow> reading_row list" where
  "upsert_row x rows =
     (if list_ex (conflicts x) rows
      then map (\<lambda>r. if conflicts x r then do_update x r else r) rows
      else rows @ [x])"

definition insert_reading :: "postgres \<Rightarrow> connection \<Rightarrow> reading \<Rightarrow> error + connection" where
  "insert_reading pg c rd =
     and_then (reading_params pg rd) (\<lambda>x.
     Inr (c\<lparr>working := (working c)\<lparr>daily_readings := upsert_row x (daily_readings (working c))\<rparr>\<rparr>))"

text \<open>
  The \<^verbatim>\<open>with\<close> block of \<^verbatim>\<open>load_data\<close>, the same statements in both scripts. The result
  is the exception that left the block, if one did, the caller's dictionary as the call
  leaves it, and the connection.
\<close>

definition load_block ::
    "postgres \<Rightarrow> connection \<Rightarrow> location_info \<Rightarrow> reading \<Rightarrow> error option \<times> reading \<times> connection" where
  "load_block pg c location_info reading_data =
     (case select_location_id c location_info of
        Inl e \<Rightarrow> (Some e, reading_data, c)
      | Inr existing_id \<Rightarrow>
          (let (location_id', c1) =
                 (case existing_id of
                    Some i \<Rightarrow> if i \<noteq> 0 then (i, c) else insert_location c location_info
                  | None \<Rightarrow> insert_location c location_info);
               reading_data' = AList.update ''location_id'' (PInt location_id') reading_data
           in case insert_reading pg c1 reading_data' of
                Inl e \<Rightarrow> (Some e, reading_data', c1)
              | Inr c2 \<Rightarrow> (None, reading_data', commit c2)))"

definition with_connection ::
    "postgres \<Rightarrow> store \<Rightarrow> location_info \<Rightarrow> reading \<Rightarrow> error option \<times> reading \<times> store" where
  "with_connection pg s location_info reading_data =
     (let (e, reading_data', c) = load_block pg (connect s) location_info reading_data
      in (e, reading_data', close c))"

text \<open>\<^verbatim>\<open>load_data\<close> of etl.py: an empty dictionary returns at once.\<close>

definition load_data ::
    "postgres \<Rightarrow> store \<Rightarrow> location_info \<Rightarrow> reading \<Rightarrow> error option \<times> reading \<times> store" where
  "load_data pg s location_info reading_data =
     (if reading_data = [] then (None, reading_data, s)
      else with_connection pg s location_info reading_data)"

text \<open>
  \<^verbatim>\<open>load_data\<close> of historical_backfill.py: its first line reads
  \<^verbatim>\<open>reading_data['reading_date']\<close> before the dictionary is tested.
\<close>

definition load_data_historical ::
    "postgres \<Rightarrow> store \<Rightarrow> location_info \<Rightarrow> reading \<Rightarrow> error option \<times> reading \<times> store" where
  "load_data_historical pg s location_info reading_data =
     (if map_of reading_data ''reading_date'' = None then (Some KeyError, reading_data, s)
      else if reading_data = [] then (None, reading_data, s)
      else with_connection pg s location_info reading_data)"

section \<open>The run drivers\<close>

text \<open>
  What a run meets outside the program: the environment variable with the credential,
  whether \<^verbatim>\<open>get_db_engine\<close> reaches the server, the clock, the two services (\<open>None\<close>
  when the request raises a \<^verbatim>\<open>RequestException\<close>), and the parameters of the two
  libraries. A run is taken to be short enough for one reading of the clock.
\<close>

record env =
  GOOGLE_API_KEY :: "string option"
  store_reachable :: bool
  now :: datetime
  aqi_current :: "location_info \<Rightarrow> json option"
  weather_forecast :: "location_info \<Rightarrow> json option"
  aqi_history :: "location_info \<Rightarrow> date \<Rightarrow> json option"
  weather_archive :: "location_info \<Rightarrow> date \<Rightarrow> json option"
  env_pandas :: pandas
  env_postgres :: postgres

text \<open>
  The trace of a run: the requests that were sent, and the calls of the merge and of
  \<^verbatim>\<open>load_data\<close>, each with its location and, in the backfill, its date.
\<close>

datatype event =
    AqiRequest location_info "date option"
  | WeatherRequest location_info "date option"
  | Merge location_info "date option"
  | Upsert location_info "date option"

definition response :: "json option \<Rightarrow> json" where
  "response r = (case r of None \<Rightarrow> JNull | Some j \<Rightarrow> j)"

definition no_key :: "env \<Rightarrow> bool" where
  "no_key e = (case GOOGLE_API_KEY e of None \<Rightarrow> True | Some k \<Rightarrow> k = [])"

definition fetch_air_quality_data :: "env \<Rightarrow> location_info \<Rightarrow> json \<times> event list" where
  "fetch_air_quality_data e location =
     (if no_key e then (JNull, [])
      else (response (aqi_current e location), [AqiRequest location None]))"

definition fetch_weather_data :: "env \<Rightarrow> location_info \<Rightarrow> json \<times> event list" where
  "fetch_weather_data e location =
     (response (weather_forecast e location), [WeatherRequest location None])"

definition fetch_historical_aqi_data ::
    "env \<Rightarrow> location_info \<Rightarrow> datetime \<Rightarrow> json \<times> event list" where
  "fetch_historical_aqi_data e location date_to_fetch =
     (if no_key e then (JNull, [])
      else (response (aqi_history e location (ordinal date_to_fetch)),
            [AqiRequest location (Some (ordinal date_to_fetch))]))"

definition fetch_weather_archive ::
    "env \<Rightarrow> location_info \<Rightarrow> date \<Rightarrow> json \<times> event list" where
  "fetch_weather_archive e location date_str =
     (response (weather_archive e location date_str), [WeatherRequest location (Some date_str)])"

text \<open>
  A \<^verbatim>\<open>for\<close> loop whose body may raise: the exception leaves the loop, and nothing catches
  it in either script, so the run ends there.
\<close>

fun run_units ::
    "('u \<Rightarrow> store \<Rightarrow> error option \<times> store \<times> event list) \<Rightarrow> 'u list \<Rightarrow> store \<Rightarrow> event list
     \<Rightarrow> error option \<times> store \<times> event list" where
  "run_units body [] s tr = (None, s, tr)"
| "run_units body (u # us) s tr =
     (case body u s of
        (Some e, s', evs) \<Rightarrow> (Some e, s', tr @ evs)
      | (None, s', evs) \<Rightarrow> run_units body us s' (tr @ evs))"

text \<open>The body of the loop of etl.py, lines 164 to 169.\<close>

definition etl_unit :: "env \<Rightarrow> location_info \<Rightarrow> store \<Rightarrow> error option \<times> store \<times> event list" where
  "etl_unit e location s =
     (let (aqi_data, ev1) = fetch_air_quality_data e location;
          (weather_data, ev2) = fetch_weather_data e location;
          evs = ev1 @ ev2 @ [Merge location None]
      in case transform_data (now e) aqi_data weather_data of
           Inl err \<Rightarrow> (Some err, s, evs)
         | Inr None \<Rightarrow> (None, s, evs)
         | Inr (Some transformed_reading) \<Rightarrow>
             if transformed_reading = [] then (None, s, evs)
             else (let (err, reading_data', s') = load_data (env_postgres e) s location transformed_reading
                   in (err, s', evs @ [Upsert location None])))"

definition etl_main :: "env \<Rightarrow> store \<Rightarrow> error option \<times> store \<times> event list" where
  "etl_main e s =
     (if \<not> store_reachable e then (None, s, [])
      else run_units (etl_unit e) LOCATIONS s [])"

text \<open>The body of the inner loop of historical_backfill.py, lines 138 to 144.\<close>

definition backfill_unit ::
    "env \<Rightarrow> datetime \<times> location_info \<Rightarrow> store \<Rightarrow> error option \<times> store \<times> event list" where
  "backfill_unit e u s =
     (let (date_to_fetch, location) = u;
          date_str = ordinal date_to_fetch;
          (aqi_data, ev1) = fetch_historical_aqi_data e location date_to_fetch;
          (weather_data, ev2) = fetch_weather_archive e location date_str;
          evs = ev1 @ ev2 @ [Merge location (Some date_str)]
      in case transform_historical_data (env_pandas e) date_to_fetch aqi_data weather_data of
           Inl err \<Rightarrow> (Some err, s, evs)
         | Inr None \<Rightarrow> (None, s, evs)
         | Inr (Some transformed_reading) \<Rightarrow>
             if transformed_reading = [] then (None, s, evs)
             else (let (err, reading_data', s') =
                         load_data_historical (env_postgres e) s location transformed_reading
                   in (err, s', evs @ [Upsert location (Some date_str)])))"

text \<open>
  \<^verbatim>\<open>for i in range(DAYS_OF_HISTORY, 0, -1)\<close> around \<^verbatim>\<open>for location in LOCATIONS\<close>, with
  \<^verbatim>\<open>date_to_fetch = today - timedelta(days=i)\<close>.
\<close>

definition backfill_units :: "datetime \<Rightarrow> (datetime \<times> location_info) list" where
  "backfill_units today =
     concat (map (\<lambda>i. map (\<lambda>location. (today\<lparr>ordinal := ordinal today - int i\<rparr>, location)) LOCATIONS)
                 (rev [1..<Suc DAYS_OF_HISTORY]))"

definition backfill_main :: "env \<Rightarrow> store \<Rightarrow> error option \<times> store \<times> event list" where
  "backfill_main e s =
     (if \<not> store_reachable e then (None, s, [])
      else run_units (backfill_unit e) (backfill_units (now e)) s [])"

section \<open>Invariant of the store\<close>

text \<open>
  What holds of every store that the two scripts have filled, starting from empty tables
  and a sequence that starts at \<open>1\<close>: a place has one row, the identifiers are positive
  and were drawn from the sequence, a key has one reading, and a reading refers to a row
  of \<open>locations\<close>.
\<close>

definition place :: "location_row \<Rightarrow> string \<times> string" where
  "place r = (city r, country r)"

definition reading_key :: "reading_row \<Rightarrow> nat \<times> date" where
  "reading_key r = (location_id r, reading_date r)"

definition references_ok :: "store \<Rightarrow> bool" where
  "references_ok s = list_all (\<lambda>r. location_id r \<in> set (map loc_id (locations s))) (daily_readings s)"

definition store_ok :: "store \<Rightarrow> bool" where
  "store_ok s =
     (distinct (map place (locations s)) \<and>
      list_all (\<lambda>r. 0 < loc_id r \<and> loc_id r < locations_id_seq s) (locations s) \<and>
      0 < locations_id_seq s \<and>
      distinct (map reading_key (daily_readings s)) \<and>
      references_ok s)"

definition empty_store :: store where
  "empty_store = \<lparr>locations = [], daily_readings = [], locations_id_seq = 1\<rparr>"


text \<open>
  Sequential execution: any number of calls of \<^verbatim>\<open>load_data\<close>, of either script (the flag
  is true for historical_backfill.py), one after the other on the same store.
\<close>

definition call_load ::
    "postgres \<Rightarrow> store \<Rightarrow> bool \<times> location_info \<times> reading \<Rightarrow> error option \<times> reading \<times> store" where
  "call_load pg s c =
     (case c of (historical, location_info, reading_data) \<Rightarrow>
        if historical then load_data_historical pg s location_info reading_data
        else load_data pg s location_info reading_data)"

fun after_calls :: "postgres \<Rightarrow> store \<Rightarrow> (bool \<times> location_info \<times> reading) list \<Rightarrow> store" where
  "after_calls pg s [] = s"
| "after_calls pg s (c # cs) = after_calls pg (snd (snd (call_load pg s c))) cs"

section \<open>Example inputs\<close>

text \<open>
  The responses of the end-to-end scenario of the specification (an index
  \<^verbatim>\<open>{code: "uaqi", aqi: 42}\<close>, a pollutant \<^verbatim>\<open>pm25\<close> of concentration \<^verbatim>\<open>8.1\<close>, a daily mean
  temperature of \<^verbatim>\<open>21.5\<close>), and a history of four hours whose \<^verbatim>\<open>pm25\<close> values are
  \<^verbatim>\<open>10, 20, null, 30\<close>.
\<close>

definition example_clock :: datetime where
  "example_clock = \<lparr>ordinal = 739194, microseconds = 0\<rparr>"

definition example_weather :: json where
  "example_weather =
     JObj [(''daily'', JObj [(''temperature_2m_mean'', JArr [JNum (43 / 2)]),
                             (''precipitation_sum'', JArr [JNum 0]),
                             (''wind_speed_10m_max'', JArr [JNum 12])])]"

definition example_index :: "json \<Rightarrow> json" where
  "example_index v = JObj [(''code'', JStr ''uaqi''), (''aqi'', v)]"

definition example_pollutant :: "string \<Rightarrow> json \<Rightarrow> json" where
  "example_pollutant code v = JObj [(''code'', JStr code), (''concentration'', JObj [(''value'', v)])]"

definition example_aqi :: json where
  "example_aqi =
     JObj [(''indexes'', JArr [example_index (JNum 42)]),
           (''pollutants'', JArr [example_pollutant ''pm25'' (JNum (81 / 10))])]"

definition example_hour :: "json \<Rightarrow> (string \<times> json) list" where
  "example_hour v =
     [(''indexes'', JArr [example_index (JNum 40)]),
      (''pollutants'', JArr [example_pollutant ''pm25'' v])]"

definition example_hours :: "(string \<times> json) list list" where
  "example_hours =
     [example_hour (JNum 10), example_hour (JNum 20), example_hour JNull, example_hour (JNum 30)]"

definition example_history :: json where
  "example_history = JObj [(''hoursInfo'', JArr (map JObj example_hours))]"

text \<open>
  A history of two hours: the first has an index of another code before its \<^verbatim>\<open>uaqi\<close> index,
  the second has no \<^verbatim>\<open>indexes\<close> key at all.
\<close>

definition history_with_partial_hour :: json where
  "history_with_partial_hour =
     JObj [(''hoursInfo'',
       JArr [JObj [(''indexes'', JArr [JObj [(''code'', JStr ''usa_epa''), (''aqi'', JNum 55)],
                                       example_index (JNum 40)]),
                   (''pollutants'', JArr [example_pollutant ''pm25'' (JNum 10)])],
             JObj [(''pollutants'', JArr [example_pollutant ''pm25'' (JNum 30)])]])]"

text \<open>A history whose only hour carries pollutants and no \<^verbatim>\<open>indexes\<close> key.\<close>

definition history_without_indexes :: json where
  "history_without_indexes =
     JObj [(''hoursInfo'', JArr [JObj [(''pollutants'', JArr [example_pollutant ''pm25'' (JNum 10)])]])]"

text \<open>Two responses without any of the nested fields that the merge reads.\<close>

definition aqi_without_fields :: json where
  "aqi_without_fields = JObj [(''regionCode'', JStr ''us'')]"

definition weather_without_fields :: json where
  "weather_without_fields = JObj [(''timezone'', JStr ''GMT'')]"

text \<open>An air-quality response whose index value is an object, which the driver cannot adapt.\<close>

definition unstorable_aqi :: json where
  "unstorable_aqi =
     JObj [(''indexes'', JArr [example_index (JObj [(''value'', JNum 42)])]),
           (''pollutants'', JArr [example_pollutant ''pm25'' (JNum (81 / 10))])]"

text \<open>
  Instances of the two libraries for the examples, whose numbers floating point
  represents well enough: the mean is computed exactly, and a number is stored as it is.
\<close>

definition exact_mean :: "rat option list \<Rightarrow> error + json" where
  "exact_mean cells =
     (let xs = List.map_filter (\<lambda>c. c) cells in Inr (JNum (sum_list xs / of_nat (length xs))))"

definition example_pandas :: pandas where
  "example_pandas =
     \<lparr>frame_other = (\<lambda>data. Inl ValueError), mean_float = exact_mean,
      mean_other = (\<lambda>cells. Inl TypeError)\<rparr>"

definition example_postgres :: postgres where
  "example_postgres =
     \<lparr>float8_num = (\<lambda>q. Some (Finite q)), float8_in = (\<lambda>s. None), date_in = (\<lambda>s. None)\<rparr>"

definition example_env :: env where
  "example_env =
     \<lparr>GOOGLE_API_KEY = Some ''secret'', store_reachable = True, now = example_clock,
      aqi_current = (\<lambda>location. Some example_aqi),
      weather_forecast = (\<lambda>location. Some example_weather),
      aqi_history = (\<lambda>location d. Some example_history),
      weather_archive = (\<lambda>location d. Some example_weather),
      env_pandas = example_pandas, env_postgres = example_postgres\<rparr>"

definition failing_env :: env where
  "failing_env = example_env\<lparr>aqi_current := (\<lambda>location. Some unstorable_aqi)\<rparr>"

definition keyless_env :: env where
  "keyless_env = example_env\<lparr>GOOGLE_API_KEY := None\<rparr>"

definition savannah :: location_info where
  "savannah = \<lparr>city = ''Savannah'', country = ''USA'', latitude = 320809 / 10000, longitude = - 810912 / 10000\<rparr>"

definition example_reading :: "json \<Rightarrow> reading" where
  "example_reading v =
     [(''reading_date'', PDate 739194), (''aqi'', PJson v),
      (''pm10'', PJson JNull), (''pm25'', PJson (JNum (81 / 10))), (''o3'', PJson JNull),
      (''no2'', PJson JNull), (''co'', PJson JNull), (''so2'', PJson JNull),
      (''temperature_celsius'', PJson (JNum (43 / 2))), (''precipitation_mm'', PJson (JNum 0)),
      (''wind_speed_kmh'', PJson (JNum 12))]"

text \<open>
  The store after the reading of the example has been loaded for Savannah into empty
  tables, with the value of the column \<^verbatim>\<open>aqi\<close> left open.
\<close>

definition savannah_row :: location_row where
  "savannah_row =
     \<lparr>city = ''Savannah'', country = ''USA'', latitude = 320809 / 10000,
      longitude = - 810912 / 10000, loc_id = 1\<rparr>"

definition example_row :: "float8 option \<Rightarrow> reading_row" where
  "example_row v =
     \<lparr>location_id = 1, reading_date = 739194, aqi = v, pm10 = None,
      pm25 = Some (Finite (81 / 10)), o3 = None, no2 = None, co = None, so2 = None,
      temperature_celsius = Some (Finite (43 / 2)), precipitation_mm = Some (Finite 0),
      wind_speed_kmh = Some (Finite 12)\<rparr>"

definition example_store :: "reading_row list \<Rightarrow> store" where
  "example_store rows = \<lparr>locations = [savannah_row], daily_readings = rows, locations_id_seq = 2\<rparr>"

section \<open>Basic facts\<close>

lemma and_then_simps [simp]:
  "and_then (Inl e) f = Inl e"
  "and_then (Inr v) f = f v"
  by (simp_all add: and_then_def)

lemma and_then_Inr: "and_then m f = Inr y \<longleftrightarrow> (\<exists>v. m = Inr v \<and> f v = Inr y)"
  by (cases m) simp_all

lemma map_err_map: "map_err f (map g xs) = map_err (\<lambda>x. f (g x)) xs"
  by (induction xs) (simp_all split: sum.splits)

lemma example_truthy:
  "truthy example_weather" "truthy example_aqi" "truthy example_history"
  "truthy history_without_indexes" "truthy aqi_without_fields" "truthy weather_without_fields"
  "truthy unstorable_aqi"
  by (simp_all add: example_weather_def example_aqi_def example_history_def
      history_without_indexes_def aqi_without_fields_def weather_without_fields_def
      unstorable_aqi_def)

lemma example_weather_fields:
  "weather_fields example_weather = Inr (JNum (43 / 2), JNum 0, JNum 12)"
  by (simp add: weather_fields_def example_weather_def daily_value_def)

lemma example_transform_body:
  "transform_body example_clock example_aqi example_weather = Inr (example_reading (JNum 42))"
  by (simp add: transform_body_def example_weather_fields example_aqi_def
      example_index_def example_pollutant_def pollutant_entry_def table_get_def
      example_reading_def example_clock_def)

lemma example_transform:
  "transform_data example_clock example_aqi example_weather = Inr (Some (example_reading (JNum 42)))"
  by (simp add: transform_data_def example_truthy example_transform_body)

section \<open>The historical merge on the example\<close>

lemma those_obj_fields: "those (map (\<lambda>x. obj_fields (JObj x)) hours) = Some hours"
  by (induction hours) simp_all

lemma rows_of_objects: "rows_of (JArr (map JObj hours)) = Some hours"
  using those_obj_fields [of hours] by (simp add: comp_def)

lemma frame_of_objects: "DataFrame pd (JArr (map JObj hours)) = Inr (frame_of_rows hours)"
  by (simp add: DataFrame_def rows_of_objects del: rows_of.simps)

lemma column_of_rows:
  "column (frame_of_rows rows) c =
     (if list_ex (\<lambda>row. c \<in> set (map fst row)) rows then Inr (map (cell c) rows)
      else Inl KeyError)"
  by (simp add: column_def frame_of_rows_def)

lemma example_hour_aqi: "get_aqi (cell ''indexes'' (example_hour v)) = Inr (JNum 40)"
  by (simp add: cell_def example_hour_def example_index_def)

lemma example_hour_pollutant:
  "get_pollutant_value (cell ''pollutants'' (example_hour v)) code =
     Inr (if code = ''pm25'' then v else JNull)"
  by (simp add: cell_def example_hour_def example_pollutant_def pollutant_entry_def table_get_def)

lemma example_columns:
  "column (frame_of_rows example_hours) ''indexes'' = Inr (map (cell ''indexes'') example_hours)"
  "column (frame_of_rows example_hours) ''pollutants'' = Inr (map (cell ''pollutants'') example_hours)"
  by (simp_all add: column_of_rows) (simp_all add: example_hours_def example_hour_def)

lemma example_aqi_column:
  "aqi_column (frame_of_rows example_hours) = Inr [JNum 40, JNum 40, JNum 40, JNum 40]"
  by (simp add: aqi_column_def example_columns map_err_map)
    (simp add: example_hours_def example_hour_aqi)

lemma example_pollutant_column:
  "pollutant_column (frame_of_rows example_hours) code =
     Inr (if code = ''pm25'' then [JNum 10, JNum 20, JNull, JNum 30]
          else [JNull, JNull, JNull, JNull])"
  by (simp add: pollutant_column_def example_columns map_err_map)
    (simp add: example_hours_def example_hour_pollutant)

lemma example_means:
  "column_mean example_pandas [JNum 40, JNum 40, JNum 40, JNum 40] = Inr (JNum 40)"
  "column_mean example_pandas [JNum 10, JNum 20, JNull, JNum 30] = Inr (JNum 20)"
  "column_mean example_pandas [JNull, JNull, JNull, JNull] = Inr JNaN"
  by (simp_all add: column_mean_def numeric_cell_def example_pandas_def exact_mean_def
      List.map_filter_simps)

lemma example_historical_body:
  "historical_body example_pandas example_clock example_history example_weather =
     Inr (Some
       [(''reading_date'', PDate 739194), (''aqi'', PJson (JNum 40)),
        (''pm10'', PJson JNaN), (''pm25'', PJson (JNum 20)),
        (''o3'', PJson JNaN), (''no2'', PJson JNaN),
        (''co'', PJson JNaN), (''so2'', PJson JNaN),
        (''temperature_celsius'', PJson (JNum (43 / 2))),
        (''precipitation_mm'', PJson (JNum 0)),
        (''wind_speed_kmh'', PJson (JNum 12))])"
proof -
  have h: "dict_get example_history ''hoursInfo'' (JArr []) = Inr (JArr (map JObj example_hours))"
    by (simp add: example_history_def)
  have t: "truthy (JArr (map JObj example_hours))"
    by (simp add: example_hours_def)
  have c: "hourly_columns (frame_of_rows example_hours) =
      Inr [(''aqi'', [JNum 40, JNum 40, JNum 40, JNum 40]),
           (''pm10'', [JNull, JNull, JNull, JNull]),
           (''pm25'', [JNum 10, JNum 20, JNull, JNum 30]),
           (''o3'', [JNull, JNull, JNull, JNull]),
           (''no2'', [JNull, JNull, JNull, JNull]),
           (''co'', [JNull, JNull, JNull, JNull]),
           (''so2'', [JNull, JNull, JNull, JNull])]"
    by (simp add: hourly_columns_def example_aqi_column example_pollutant_column pollutant_codes_def)
  show ?thesis
    unfolding historical_body_def
    by (simp add: example_weather_fields h t frame_of_objects c daily_means_def example_means
        averages_get_def example_clock_def del: dict_get.simps truthy.simps)
qed

lemma example_historical:
  "transform_historical_data example_pandas example_clock example_history example_weather =
     Inr (Some
       [(''reading_date'', PDate 739194), (''aqi'', PJson (JNum 40)),
        (''pm10'', PJson JNaN), (''pm25'', PJson (JNum 20)),
        (''o3'', PJson JNaN), (''no2'', PJson JNaN),
        (''co'', PJson JNaN), (''so2'', PJson JNaN),
        (''temperature_celsius'', PJson (JNum (43 / 2))),
        (''precipitation_mm'', PJson (JNum 0)),
        (''wind_speed_kmh'', PJson (JNum 12))])"
  by (simp add: transform_historical_data_def example_truthy example_historical_body)

text \<open>
  An hour without the key \<^verbatim>\<open>indexes\<close> does not count for the AQI when another hour has the
  key, and an index of another code is passed over.
\<close>

lemma example_partial_hour:
  "transform_historical_data example_pandas example_clock history_with_partial_hour example_weather =
     Inr (Some
       [(''reading_date'', PDate 739194), (''aqi'', PJson (JNum 40)),
        (''pm10'', PJson JNaN), (''pm25'', PJson (JNum 20)),
        (''o3'', PJson JNaN), (''no2'', PJson JNaN),
        (''co'', PJson JNaN), (''so2'', PJson JNaN),
        (''temperature_celsius'', PJson (JNum (43 / 2))),
        (''precipitation_mm'', PJson (JNum 0)),
        (''wind_speed_kmh'', PJson (JNum 12))])"
proof -
  have c: "hourly_columns (frame_of_rows
        [[(''indexes'', JArr [JObj [(''code'', JStr ''usa_epa''), (''aqi'', JNum 55)],
                              example_index (JNum 40)]),
          (''pollutants'', JArr [example_pollutant ''pm25'' (JNum 10)])],
         [(''pollutants'', JArr [example_pollutant ''pm25'' (JNum 30)])]]) =
      Inr [(''aqi'', [JNum 40, JNull]),
           (''pm10'', [JNull, JNull]),
           (''pm25'', [JNum 10, JNum 30]),
           (''o3'', [JNull, JNull]),
           (''no2'', [JNull, JNull]),
           (''co'', [JNull, JNull]),
           (''so2'', [JNull, JNull])]"
    by (simp add: hourly_columns_def aqi_column_def pollutant_column_def column_of_rows cell_def
        pollutant_codes_def example_index_def example_pollutant_def pollutant_entry_def
        table_get_def)
  have m: "column_mean example_pandas [JNum 40, JNull] = Inr (JNum 40)"
    "column_mean example_pandas [JNum 10, JNum 30] = Inr (JNum 20)"
    "column_mean example_pandas [JNull, JNull] = Inr JNaN"
    by (simp_all add: column_mean_def numeric_cell_def example_pandas_def exact_mean_def
        List.map_filter_simps)
  have "historical_body example_pandas example_clock history_with_partial_hour example_weather =
     Inr (Some
       [(''reading_date'', PDate 739194), (''aqi'', PJson (JNum 40)),
        (''pm10'', PJson JNaN), (''pm25'', PJson (JNum 20)),
        (''o3'', PJson JNaN), (''no2'', PJson JNaN),
        (''co'', PJson JNaN), (''so2'', PJson JNaN),
        (''temperature_celsius'', PJson (JNum (43 / 2))),
        (''precipitation_mm'', PJson (JNum 0)),
        (''wind_speed_kmh'', PJson (JNum 12))])"
    unfolding historical_body_def
    by (simp add: example_weather_fields history_with_partial_hour_def DataFrame_def c
        daily_means_def m averages_get_def example_clock_def)
  moreover have "truthy history_with_partial_hour"
    by (simp add: history_with_partial_hour_def)
  ultimately show ?thesis
    by (simp add: transform_historical_data_def example_truthy)
qed

lemma example_without_indexes:
  "transform_historical_data example_pandas example_clock history_without_indexes example_weather =
     Inr None"
proof -
  have "historical_body example_pandas example_clock history_without_indexes example_weather =
      Inl KeyError"
    by (simp add: historical_body_def example_weather_fields history_without_indexes_def
        DataFrame_def hourly_columns_def aqi_column_def column_of_rows)
  then show ?thesis
    by (simp add: transform_historical_data_def example_truthy)
qed

text \<open>
  C2. The claim fails in the code for a field that no hour reports. In the history of
  the example every hour has an index and reports \<^verbatim>\<open>pm25\<close> alone of the six pollutants,
  with the values \<^verbatim>\<open>10, 20, null, 30\<close>. The merge returns the mean \<^verbatim>\<open>20\<close> for \<^verbatim>\<open>pm25\<close>, the null
  entry ignored; for \<^verbatim>\<open>pm10\<close>, which no hour reports, it returns the float \<^verbatim>\<open>nan\<close> and not
  \<^verbatim>\<open>None\<close>, and the statement of \<^verbatim>\<open>load_data\<close> stores it as the value \<^verbatim>\<open>NaN\<close> and not as
  \<^verbatim>\<open>NULL\<close>.
\<close>

theorem unreported_field_is_nan:
  "transform_historical_data example_pandas example_clock example_history example_weather =
     Inr (Some
       [(''reading_date'', PDate 739194), (''aqi'', PJson (JNum 40)),
        (''pm10'', PJson JNaN), (''pm25'', PJson (JNum 20)),
        (''o3'', PJson JNaN), (''no2'', PJson JNaN),
        (''co'', PJson JNaN), (''so2'', PJson JNaN),
        (''temperature_celsius'', PJson (JNum (43 / 2))),
        (''precipitation_mm'', PJson (JNum 0)),
        (''wind_speed_kmh'', PJson (JNum 12))]) \<and>
   float_param example_postgres (Some (PJson JNaN)) = Inr (Some NaN) \<and>
   float_param example_postgres (Some (PJson JNull)) = Inr None"
  by (simp add: example_historical)

section \<open>What the two merges return\<close>

lemma transform_data_null:
  "transform_data clk JNull w = Inr None" "transform_data clk a JNull = Inr None"
  by (simp_all add: transform_data_def)

lemma historical_empty_hours:
  assumes "dict_get a ''hoursInfo'' (JArr []) = Inr (JArr [])"
  shows "transform_historical_data pd d a w = Inr None"
proof -
  have "historical_body pd d a w = Inr None \<or> (\<exists>e. historical_body pd d a w = Inl e)"
    using assms by (cases "weather_fields w") (auto simp: historical_body_def split: prod.splits)
  then show ?thesis by (auto simp: transform_historical_data_def)
qed

text \<open>
  C8. Both merges return \<^verbatim>\<open>None\<close> when the air-quality response is \<^verbatim>\<open>None\<close> and when the
  weather response is \<^verbatim>\<open>None\<close>, whatever the other argument is; and the historical merge
  returns \<^verbatim>\<open>None\<close> when the list under \<^verbatim>\<open>hoursInfo\<close> is empty, whatever the weather
  response is.
\<close>

theorem merge_null_propagating:
  "transform_data clk JNull w = Inr None \<and>
   transform_data clk a JNull = Inr None \<and>
   transform_historical_data pd d JNull w = Inr None \<and>
   transform_historical_data pd d a JNull = Inr None \<and>
   (dict_get a ''hoursInfo'' (JArr []) = Inr (JArr [])
      \<longrightarrow> transform_historical_data pd d a w = Inr None)"
proof -
  have "transform_historical_data pd d JNull w = Inr None"
    and "transform_historical_data pd d a JNull = Inr None"
    by (simp_all add: transform_historical_data_def)
  then show ?thesis
    using transform_data_null [of clk] historical_empty_hours [of a pd d w] by blast
qed

text \<open>
  An instance: a history with an empty \<^verbatim>\<open>hoursInfo\<close> list next to the weather of the
  example, and the example responses next to \<^verbatim>\<open>None\<close>.
\<close>

theorem merge_null_propagating_witness:
  "dict_get (JObj [(''hoursInfo'', JArr [])]) ''hoursInfo'' (JArr []) = Inr (JArr []) \<and>
   transform_historical_data example_pandas example_clock (JObj [(''hoursInfo'', JArr [])])
     example_weather = Inr None \<and>
   transform_data example_clock JNull example_weather = Inr None \<and>
   transform_data example_clock (JObj [(''hoursInfo'', JArr [])]) JNull = Inr None"
  using merge_null_propagating [of example_clock example_weather "JObj [(''hoursInfo'', JArr [])]"
      example_pandas example_clock]
  by simp

lemma transform_body_day:
  "transform_body clk a w = Inr r \<Longrightarrow>
   map_of r ''reading_date'' = Some (PDate (ordinal clk)) \<and>
   transform_body clk' a w = Inr (AList.update ''reading_date'' (PDate (ordinal clk')) r)"
  by (auto simp: transform_body_def and_then_Inr split: prod.splits)

lemma historical_body_day:
  "historical_body pd d a w = Inr (Some r) \<Longrightarrow>
   map_of r ''reading_date'' = Some (PDate (ordinal d)) \<and>
   historical_body pd d' a w = Inr (Some (AList.update ''reading_date'' (PDate (ordinal d')) r))"
  by (auto simp: historical_body_def and_then_Inr split: prod.splits if_splits)

lemma transform_data_day:
  assumes "transform_data clk a w = Inr (Some r)"
  shows "map_of r ''reading_date'' = Some (PDate (ordinal clk))"
    and "transform_data clk' a w = Inr (Some (AList.update ''reading_date'' (PDate (ordinal clk')) r))"
proof -
  from assms have t: "truthy a" "truthy w" and b: "transform_body clk a w = Inr r"
    by (auto simp: transform_data_def split: if_splits sum.splits)
  from transform_body_day [OF b, of clk'] t
  show "map_of r ''reading_date'' = Some (PDate (ordinal clk))"
    and "transform_data clk' a w = Inr (Some (AList.update ''reading_date'' (PDate (ordinal clk')) r))"
    by (simp_all add: transform_data_def)
qed

lemma transform_historical_day:
  assumes "transform_historical_data pd d a w = Inr (Some r)"
  shows "map_of r ''reading_date'' = Some (PDate (ordinal d))"
    and "transform_historical_data pd d' a w =
           Inr (Some (AList.update ''reading_date'' (PDate (ordinal d')) r))"
proof -
  from assms have t: "truthy a" "truthy w" and b: "historical_body pd d a w = Inr (Some r)"
    by (auto simp: transform_historical_data_def split: if_splits sum.splits)
  from historical_body_day [OF b, of d'] t
  show "map_of r ''reading_date'' = Some (PDate (ordinal d))"
    and "transform_historical_data pd d' a w =
           Inr (Some (AList.update ''reading_date'' (PDate (ordinal d')) r))"
    by (simp_all add: transform_historical_data_def)
qed

text \<open>
  C5. Whenever a merge yields a record, its \<^verbatim>\<open>reading_date\<close> is the date of the target
  day: in historical_backfill.py the date of the argument \<^verbatim>\<open>date_to_fetch\<close>, in etl.py,
  whose merge has no date argument, the date of the clock at the time of the call. Nothing
  of the two responses enters it, and the day enters nothing else: the same two responses
  merged for any other day give a record again, the same but for its \<^verbatim>\<open>reading_date\<close>,
  which is that other day.
\<close>

theorem reading_date_is_target_date:
  "(transform_data clk a w = Inr (Some r) \<longrightarrow>
      map_of r ''reading_date'' = Some (PDate (ordinal clk)) \<and>
      (\<forall>clk'. transform_data clk' a w =
         Inr (Some (AList.update ''reading_date'' (PDate (ordinal clk')) r)))) \<and>
   (transform_historical_data pd d a w = Inr (Some r) \<longrightarrow>
      map_of r ''reading_date'' = Some (PDate (ordinal d)) \<and>
      (\<forall>d'. transform_historical_data pd d' a w =
         Inr (Some (AList.update ''reading_date'' (PDate (ordinal d')) r))))"
  using transform_data_day [of clk a w r] transform_historical_day [of pd d a w r]
  by blast

text \<open>
  Both merges on the example responses: merged for day \<open>739194\<close> each gives a record of
  that day, and the history merged for day \<open>739166\<close>, four weeks before, gives the same
  averages under that day.
\<close>

theorem reading_date_is_target_date_witness:
  "transform_data example_clock example_aqi example_weather =
     Inr (Some (example_reading (JNum 42))) \<and>
   map_of (example_reading (JNum 42)) ''reading_date'' = Some (PDate 739194) \<and>
   ordinal example_clock = 739194 \<and>
   transform_historical_data example_pandas example_clock example_history example_weather =
     Inr (Some
       [(''reading_date'', PDate 739194), (''aqi'', PJson (JNum 40)),
        (''pm10'', PJson JNaN), (''pm25'', PJson (JNum 20)),
        (''o3'', PJson JNaN), (''no2'', PJson JNaN),
        (''co'', PJson JNaN), (''so2'', PJson JNaN),
        (''temperature_celsius'', PJson (JNum (43 / 2))),
        (''precipitation_mm'', PJson (JNum 0)),
        (''wind_speed_kmh'', PJson (JNum 12))]) \<and>
   transform_historical_data example_pandas \<lparr>ordinal = 739166, microseconds = 0\<rparr>
       example_history example_weather =
     Inr (Some
       [(''reading_date'', PDate 739166), (''aqi'', PJson (JNum 40)),
        (''pm10'', PJson JNaN), (''pm25'', PJson (JNum 20)),
        (''o3'', PJson JNaN), (''no2'', PJson JNaN),
        (''co'', PJson JNaN), (''so2'', PJson JNaN),
        (''temperature_celsius'', PJson (JNum (43 / 2))),
        (''precipitation_mm'', PJson (JNum 0)),
        (''wind_speed_kmh'', PJson (JNum 12))])"
proof -
  have day: "ordinal example_clock = 739194"
    by (simp add: example_clock_def)
  from reading_date_is_target_date [of example_clock example_aqi example_weather
      "example_reading (JNum 42)" example_pandas example_clock] example_transform
  have etl: "map_of (example_reading (JNum 42)) ''reading_date'' = Some (PDate (ordinal example_clock))"
    by simp
  from reading_date_is_target_date [of example_clock example_history example_weather _
      example_pandas example_clock] example_historical
  have "transform_historical_data example_pandas \<lparr>ordinal = 739166, microseconds = 0\<rparr>
       example_history example_weather =
     Inr (Some (AList.update ''reading_date'' (PDate (ordinal \<lparr>ordinal = 739166, microseconds = 0\<rparr>))
       [(''reading_date'', PDate 739194), (''aqi'', PJson (JNum 40)),
        (''pm10'', PJson JNaN), (''pm25'', PJson (JNum 20)),
        (''o3'', PJson JNaN), (''no2'', PJson JNaN),
        (''co'', PJson JNaN), (''so2'', PJson JNaN),
        (''temperature_celsius'', PJson (JNum (43 / 2))),
        (''precipitation_mm'', PJson (JNum 0)),
        (''wind_speed_kmh'', PJson (JNum 12))]))"
    by blast
  then have hist: "transform_historical_data example_pandas \<lparr>ordinal = 739166, microseconds = 0\<rparr>
       example_history example_weather =
     Inr (Some
       [(''reading_date'', PDate 739166), (''aqi'', PJson (JNum 40)),
        (''pm10'', PJson JNaN), (''pm25'', PJson (JNum 20)),
        (''o3'', PJson JNaN), (''no2'', PJson JNaN),
        (''co'', PJson JNaN), (''so2'', PJson JNaN),
        (''temperature_celsius'', PJson (JNum (43 / 2))),
        (''precipitation_mm'', PJson (JNum 0)),
        (''wind_speed_kmh'', PJson (JNum 12))])"
    by simp
  from day etl hist example_transform example_historical show ?thesis
    by simp
qed

lemma example_without_fields:
  "transform_data example_clock aqi_without_fields weather_without_fields =
     Inr (Some
       [(''reading_date'', PDate 739194), (''aqi'', PJson JNull),
        (''pm10'', PJson JNull), (''pm25'', PJson JNull),
        (''o3'', PJson JNull), (''no2'', PJson JNull),
        (''co'', PJson JNull), (''so2'', PJson JNull),
        (''temperature_celsius'', PJson JNull),
        (''precipitation_mm'', PJson JNull),
        (''wind_speed_kmh'', PJson JNull)])"
proof -
  have "weather_fields weather_without_fields = Inr (JNull, JNull, JNull)"
    by (simp add: weather_fields_def weather_without_fields_def daily_value_def)
  then have "transform_body example_clock aqi_without_fields weather_without_fields =
     Inr [(''reading_date'', PDate 739194), (''aqi'', PJson JNull),
        (''pm10'', PJson JNull), (''pm25'', PJson JNull),
        (''o3'', PJson JNull), (''no2'', PJson JNull),
        (''co'', PJson JNull), (''so2'', PJson JNull),
        (''temperature_celsius'', PJson JNull),
        (''precipitation_mm'', PJson JNull),
        (''wind_speed_kmh'', PJson JNull)]"
    by (simp add: transform_body_def aqi_without_fields_def table_get_def example_clock_def)
  then show ?thesis
    by (simp add: transform_data_def example_truthy)
qed

text \<open>
  C9. The claim fails in etl.py for a response of unexpected shape. A weather response
  whose \<^verbatim>\<open>daily\<close> is a list makes \<^verbatim>\<open>daily_weather.get\<close> raise \<^verbatim>\<open>AttributeError\<close>, which the
  handler of \<^verbatim>\<open>transform_data\<close> does not list: the exception leaves the function. The
  handler of \<^verbatim>\<open>transform_historical_data\<close> catches every exception, and that merge returns
  \<^verbatim>\<open>None\<close> on the same response.
\<close>

theorem attribute_error_escapes:
  "transform_data example_clock example_aqi (JObj [(''daily'', JArr [JNum 1])]) =
     Inl AttributeError \<and>
   transform_historical_data example_pandas example_clock example_history
     (JObj [(''daily'', JArr [JNum 1])]) = Inr None"
proof -
  have w: "weather_fields (JObj [(''daily'', JArr [JNum 1])]) = Inl AttributeError"
    by (simp add: weather_fields_def daily_value_def)
  then have "transform_body example_clock example_aqi (JObj [(''daily'', JArr [JNum 1])]) =
     Inl AttributeError"
    by (simp add: transform_body_def)
  moreover from w have "historical_body example_pandas example_clock example_history
     (JObj [(''daily'', JArr [JNum 1])]) = Inl AttributeError"
    by (simp add: historical_body_def)
  ultimately show ?thesis
    by (simp add: transform_data_def transform_historical_data_def example_truthy caught_def)
qed

section \<open>The statements of load_data\<close>

lemma int_param_Inr: "int_param p = Inr n \<longleftrightarrow> p = Some (PInt n)"
  by (cases p rule: int_param.cases) auto

lemma reading_params_location_id:
  "reading_params pg rd = Inr x \<Longrightarrow> map_of rd ''location_id'' = Some (PInt (location_id x))"
  by (auto simp: reading_params_def and_then_Inr int_param_Inr)

lemma reading_params_updated:
  "reading_params pg (AList.update ''location_id'' (PInt lid) rd) = Inr x \<Longrightarrow> location_id x = lid"
  by (drule reading_params_location_id) (simp add: update_conv')

lemma conflicts_key: "conflicts x r \<longleftrightarrow> reading_key r = reading_key x"
  by (auto simp: conflicts_def reading_key_def)

lemma do_update_key: "reading_key (do_update x r) = reading_key r"
  by (simp add: do_update_def reading_key_def)

lemma do_update_location_id: "location_id (do_update x r) = location_id r"
  by (simp add: do_update_def)

lemma do_update_replaces: "conflicts x r \<Longrightarrow> do_update x r = x"
  by (cases x, cases r) (simp add: do_update_def conflicts_def)

lemma list_ex_conflicts:
  "list_ex (conflicts x) rows \<longleftrightarrow> reading_key x \<in> set (map reading_key rows)"
  unfolding list_ex_iff conflicts_key set_map image_iff by metis

lemma replaced_keys:
  "map reading_key (map (\<lambda>r. if conflicts x r then do_update x r else r) rows) =
     map reading_key rows"
  by (induction rows) (simp_all add: do_update_key)

lemma upsert_row_keys:
  "map reading_key (upsert_row x rows) =
     (if reading_key x \<in> set (map reading_key rows) then map reading_key rows
      else map reading_key rows @ [reading_key x])"
  using replaced_keys [of x rows]
  by (simp add: upsert_row_def list_ex_conflicts del: map_map set_map)

lemma upsert_row_distinct:
  "distinct (map reading_key rows) \<Longrightarrow> distinct (map reading_key (upsert_row x rows))"
  by (simp add: upsert_row_keys)



lemma upsert_row_member: "x \<in> set (upsert_row x rows)"
proof (cases "list_ex (conflicts x) rows")
  case True
  then obtain r where "r \<in> set rows" "conflicts x r"
    by (auto simp: list_ex_iff)
  then have "x \<in> (\<lambda>r. if conflicts x r then do_update x r else r) ` set rows"
    by (auto simp: image_iff do_update_replaces intro!: bexI [of _ r])
  with True show ?thesis
    by (simp add: upsert_row_def)
next
  case False
  then show ?thesis
    by (simp add: upsert_row_def)
qed

lemma upsert_row_location_ids:
  "set (map location_id (upsert_row x rows)) \<subseteq> insert (location_id x) (set (map location_id rows))"
  by (auto simp: upsert_row_def do_update_location_id split: if_splits)

text \<open>
  What one pass through the \<^verbatim>\<open>with\<close> block does to the store: either an exception leaves
  it and the two tables are as before, or the reading is upserted under the identifier of
  the one row found for the place, or under a newly drawn identifier, whose row is added.
\<close>

lemma with_connection_result:
  assumes "with_connection pg s loc rd = (err, rd', s')"
  shows "(\<exists>e. err = Some e \<and> locations s' = locations s \<and> daily_readings s' = daily_readings s \<and>
            locations_id_seq s \<le> locations_id_seq s') \<or>
         (\<exists>lid x. err = None \<and> rd' = AList.update ''location_id'' (PInt lid) rd \<and>
            reading_params pg rd' = Inr x \<and>
            daily_readings s' = upsert_row x (daily_readings s) \<and>
            ((\<exists>r. filter (same_place loc) (locations s) = [r] \<and> loc_id r = lid \<and> lid \<noteq> 0 \<and>
                  locations s' = locations s \<and> locations_id_seq s' = locations_id_seq s) \<or>
             ((filter (same_place loc) (locations s) = [] \<or>
               (\<exists>r. filter (same_place loc) (locations s) = [r] \<and> loc_id r = 0)) \<and>
              lid = locations_id_seq s \<and>
              locations s' = locations s @
                [\<lparr>city = city loc, country = country loc, latitude = latitude loc,
                  longitude = longitude loc, loc_id = lid\<rparr>] \<and>
              locations_id_seq s' = Suc (locations_id_seq s))))"
  using assms
  unfolding with_connection_def load_block_def select_location_id_def insert_location_def
    insert_reading_def connect_def commit_def close_def Let_def
  by (auto split: list.splits option.splits sum.splits if_splits prod.splits
      simp: and_then_def)

lemma with_connection_failure:
  assumes "with_connection pg s loc rd = (Some e, rd', s')"
  shows "locations s' = locations s" "daily_readings s' = daily_readings s"
    "locations_id_seq s \<le> locations_id_seq s'"
  using with_connection_result [OF assms] by auto

lemma place_of_filter:
  "filter (same_place loc) rows = [] \<Longrightarrow> (city loc, country loc) \<notin> set (map place rows)"
  by (auto simp: filter_empty_conv same_place_def place_def)

lemma filter_of_place:
  "distinct (map place rows) \<Longrightarrow> r \<in> set rows \<Longrightarrow> same_place loc r
   \<Longrightarrow> filter (same_place loc) rows = [r]"
proof (induction rows)
  case Nil
  then show ?case by simp
next
  case (Cons a rows)
  show ?case
  proof (cases "a = r")
    case True
    with Cons.prems have "\<forall>q \<in> set rows. \<not> same_place loc q"
      by (auto simp: same_place_def place_def image_iff)
    then have "filter (same_place loc) rows = []"
      by (simp add: filter_empty_conv)
    with True Cons.prems(3) show ?thesis by simp
  next
    case False
    with Cons.prems have r: "r \<in> set rows" and d: "distinct (map place rows)"
      by auto
    with Cons.prems(1,3) have "\<not> same_place loc a"
      by (auto simp: same_place_def place_def image_iff)
    with Cons.IH [OF d r Cons.prems(3)] show ?thesis by simp
  qed
qed

lemma with_connection_success:
  assumes ok: "list_all (\<lambda>r. 0 < loc_id r \<and> loc_id r < locations_id_seq s) (locations s)"
    and run: "with_connection pg s loc rd = (None, rd', s')"
  obtains (found) r x where
      "filter (same_place loc) (locations s) = [r]"
      "rd' = AList.update ''location_id'' (PInt (loc_id r)) rd"
      "reading_params pg rd' = Inr x" "location_id x = loc_id r"
      "daily_readings s' = upsert_row x (daily_readings s)"
      "locations s' = locations s" "locations_id_seq s' = locations_id_seq s"
  | (created) x where
      "filter (same_place loc) (locations s) = []"
      "rd' = AList.update ''location_id'' (PInt (locations_id_seq s)) rd"
      "reading_params pg rd' = Inr x" "location_id x = locations_id_seq s"
      "daily_readings s' = upsert_row x (daily_readings s)"
      "locations s' = locations s @
         [\<lparr>city = city loc, country = country loc, latitude = latitude loc,
           longitude = longitude loc, loc_id = locations_id_seq s\<rparr>]"
      "locations_id_seq s' = Suc (locations_id_seq s)"
proof -
  have pos: "loc_id r \<noteq> 0" if "filter (same_place loc) (locations s) = [r]" for r
  proof -
    from that have "r \<in> set (filter (same_place loc) (locations s))" by simp
    with ok show ?thesis by (auto simp: list_all_iff)
  qed
  from with_connection_result [OF run] obtain lid x where
    rd': "rd' = AList.update ''location_id'' (PInt lid) rd"
    and x: "reading_params pg rd' = Inr x"
    and up: "daily_readings s' = upsert_row x (daily_readings s)"
    and alt: "(\<exists>r. filter (same_place loc) (locations s) = [r] \<and> loc_id r = lid \<and> lid \<noteq> 0 \<and>
                  locations s' = locations s \<and> locations_id_seq s' = locations_id_seq s) \<or>
             ((filter (same_place loc) (locations s) = [] \<or>
               (\<exists>r. filter (same_place loc) (locations s) = [r] \<and> loc_id r = 0)) \<and>
              lid = locations_id_seq s \<and>
              locations s' = locations s @
                [\<lparr>city = city loc, country = country loc, latitude = latitude loc,
                  longitude = longitude loc, loc_id = lid\<rparr>] \<and>
              locations_id_seq s' = Suc (locations_id_seq s))"
    by auto
  from rd' x have lid: "location_id x = lid"
    by (auto dest: reading_params_updated)
  from alt show thesis
  proof
    assume "\<exists>r. filter (same_place loc) (locations s) = [r] \<and> loc_id r = lid \<and> lid \<noteq> 0 \<and>
                  locations s' = locations s \<and> locations_id_seq s' = locations_id_seq s"
    then obtain r where "filter (same_place loc) (locations s) = [r]" "loc_id r = lid"
      "locations s' = locations s" "locations_id_seq s' = locations_id_seq s"
      by auto
    with rd' x up lid show thesis
      by (intro found [of r x]) simp_all
  next
    assume new: "(filter (same_place loc) (locations s) = [] \<or>
               (\<exists>r. filter (same_place loc) (locations s) = [r] \<and> loc_id r = 0)) \<and>
              lid = locations_id_seq s \<and>
              locations s' = locations s @
                [\<lparr>city = city loc, country = country loc, latitude = latitude loc,
                  longitude = longitude loc, loc_id = lid\<rparr>] \<and>
              locations_id_seq s' = Suc (locations_id_seq s)"
    with pos have "filter (same_place loc) (locations s) = []"
      by blast
    with new rd' x up lid show thesis
      by (intro created [of x]) simp_all
  qed
qed

lemma references_ok_upsert:
  assumes "references_ok s" and "set (locations s) \<subseteq> set (locations s')"
    and "daily_readings s' = upsert_row x (daily_readings s)"
    and "location_id x \<in> set (map loc_id (locations s'))"
  shows "references_ok s'"
proof -
  have "location_id r \<in> set (map loc_id (locations s'))" if "r \<in> set (daily_readings s')" for r
  proof -
    from that assms(3) have "location_id r \<in> set (map location_id (upsert_row x (daily_readings s)))"
      by simp
    with upsert_row_location_ids [of x "daily_readings s"]
    have "location_id r = location_id x \<or> location_id r \<in> set (map location_id (daily_readings s))"
      by auto
    moreover from assms(1)
    have "\<forall>q \<in> set (daily_readings s). location_id q \<in> loc_id ` set (locations s)"
      by (simp add: references_ok_def list_all_iff)
    moreover from assms(2) have "loc_id ` set (locations s) \<subseteq> loc_id ` set (locations s')"
      by (rule image_mono)
    ultimately show ?thesis
      using assms(4) by auto
  qed
  then show ?thesis
    by (simp add: references_ok_def list_all_iff)
qed

lemma with_connection_cases:
  assumes "with_connection pg s loc rd = (err, rd', s')"
  obtains (failed) e where "err = Some e" "locations s' = locations s"
      "daily_readings s' = daily_readings s" "locations_id_seq s \<le> locations_id_seq s'"
  | (found) r x where "err = None" "filter (same_place loc) (locations s) = [r]"
      "rd' = AList.update ''location_id'' (PInt (loc_id r)) rd"
      "reading_params pg rd' = Inr x"
      "daily_readings s' = upsert_row x (daily_readings s)"
      "locations s' = locations s"
  | (created) x where "err = None"
      "rd' = AList.update ''location_id'' (PInt (locations_id_seq s)) rd"
      "reading_params pg rd' = Inr x"
      "daily_readings s' = upsert_row x (daily_readings s)"
      "locations s' = locations s @
         [\<lparr>city = city loc, country = country loc, latitude = latitude loc,
           longitude = longitude loc, loc_id = locations_id_seq s\<rparr>]"
  using with_connection_result [OF assms] by (elim disjE exE conjE) blast+

lemma with_connection_references:
  assumes "references_ok s" and "with_connection pg s loc rd = (err, rd', s')"
  shows "references_ok s'"
  using assms(2)
proof (cases rule: with_connection_cases)
  case (failed e)
  with assms(1) show ?thesis
    by (simp add: references_ok_def)
next
  case (found r x)
  then have lid: "location_id x = loc_id r"
    by (auto dest: reading_params_updated)
  from found(2) have "r \<in> set (filter (same_place loc) (locations s))" by simp
  with lid found(6) have "location_id x \<in> set (map loc_id (locations s'))"
    by auto
  with assms(1) found(5,6) show ?thesis
    by (intro references_ok_upsert [of s s' x]) simp_all
next
  case (created x)
  then have lid: "location_id x = locations_id_seq s"
    by (auto dest: reading_params_updated)
  with created(5) have "location_id x \<in> set (map loc_id (locations s'))"
    by simp
  with assms(1) created(4,5) show ?thesis
    by (intro references_ok_upsert [of s s' x]) auto
qed

lemma with_connection_store_ok:
  assumes ok: "store_ok s" and run: "with_connection pg s loc rd = (err, rd', s')"
  shows "store_ok s'" and "\<exists>new. locations s' = locations s @ new"
proof -
  from ok have ids: "list_all (\<lambda>r. 0 < loc_id r \<and> loc_id r < locations_id_seq s) (locations s)"
    and places: "distinct (map place (locations s))"
    and seq: "0 < locations_id_seq s"
    and keys: "distinct (map reading_key (daily_readings s))"
    and refs: "references_ok s"
    by (simp_all add: store_ok_def)
  from refs run have refs': "references_ok s'"
    by (rule with_connection_references)
  have "store_ok s' \<and> (\<exists>new. locations s' = locations s @ new)"
  proof (cases err)
    case (Some e)
    with run have "locations s' = locations s" "daily_readings s' = daily_readings s"
      "locations_id_seq s \<le> locations_id_seq s'"
      by (auto dest: with_connection_failure)
    with ids places seq keys refs' show ?thesis
      by (auto simp: store_ok_def list_all_iff)
  next
    case None
    with run have run': "with_connection pg s loc rd = (None, rd', s')" by simp
    from ids run' show ?thesis
    proof (cases rule: with_connection_success)
      case (found r x)
      with ids places seq keys refs' show ?thesis
        by (simp add: store_ok_def upsert_row_distinct)
    next
      case (created x)
      from created(1) have "(city loc, country loc) \<notin> set (map place (locations s))"
        by (rule place_of_filter)
      with places created(6) have "distinct (map place (locations s'))"
        by (simp add: place_def)
      moreover from ids seq created(6,7)
      have "list_all (\<lambda>r. 0 < loc_id r \<and> loc_id r < locations_id_seq s') (locations s')"
        by (auto simp: list_all_iff)
      moreover from keys created(5) have "distinct (map reading_key (daily_readings s'))"
        by (simp add: upsert_row_distinct)
      ultimately show ?thesis
        using refs' created(6,7) by (simp add: store_ok_def)
    qed
  qed
  then show "store_ok s'" and "\<exists>new. locations s' = locations s @ new"
    by simp_all
qed

lemma call_load_cases:
  assumes "call_load pg s (h, loc, rd) = (err, rd', s')"
  obtains (returned) "rd' = rd" "s' = s" "rd = [] \<or> err = Some KeyError"
  | (connected) "rd \<noteq> []" "with_connection pg s loc rd = (err, rd', s')"
  using assms
  by (auto simp: call_load_def load_data_def load_data_historical_def split: if_splits)

lemma call_load_store_ok:
  assumes "store_ok s" and "call_load pg s c = (err, rd', s')"
  shows "store_ok s'" and "\<exists>new. locations s' = locations s @ new"
proof -
  obtain h loc rd where c: "c = (h, loc, rd)" by (cases c)
  from assms(2) [unfolded c] have "store_ok s' \<and> (\<exists>new. locations s' = locations s @ new)"
  proof (cases rule: call_load_cases)
    case returned
    with assms(1) show ?thesis by simp
  next
    case connected
    with assms(1) show ?thesis
      by (auto dest: with_connection_store_ok)
  qed
  then show "store_ok s'" and "\<exists>new. locations s' = locations s @ new"
    by simp_all
qed

lemma after_calls_store_ok:
  "store_ok s \<Longrightarrow> store_ok (after_calls pg s cs) \<and>
     (\<exists>new. locations (after_calls pg s cs) = locations s @ new)"
proof (induction cs arbitrary: s)
  case Nil
  then show ?case by simp
next
  case (Cons c cs)
  obtain err rd' s' where step: "call_load pg s c = (err, rd', s')"
    by (cases "call_load pg s c")
  from call_load_store_ok [OF Cons.prems step] obtain new where
    ok': "store_ok s'" and grow: "locations s' = locations s @ new"
    by auto
  from Cons.IH [OF ok'] grow step show ?case
    by auto
qed

text \<open>Every store that calls of \<^verbatim>\<open>load_data\<close> have filled from empty tables is \<open>store_ok\<close>.\<close>

lemma filled_store_ok: "store_ok (after_calls pg empty_store cs)"
proof -
  have "store_ok empty_store"
    by (simp add: store_ok_def references_ok_def empty_store_def)
  then show ?thesis
    by (simp add: after_calls_store_ok)
qed

lemma call_load_success:
  assumes "store_ok s" and "call_load pg s (h, loc, rd) = (None, rd', s')" and "rd \<noteq> []"
  shows "\<exists>r. filter (same_place loc) (locations s') = [r] \<and>
           map_of rd' ''location_id'' = Some (PInt (loc_id r)) \<and>
           (filter (same_place loc) (locations s) = [] \<or>
            filter (same_place loc) (locations s) = [r] \<and> locations s' = locations s)"
proof -
  from assms(1) have ids:
    "list_all (\<lambda>r. 0 < loc_id r \<and> loc_id r < locations_id_seq s) (locations s)"
    by (simp add: store_ok_def)
  from assms(2) have run: "with_connection pg s loc rd = (None, rd', s')"
  proof (cases rule: call_load_cases)
    case returned
    with assms(3) show ?thesis by simp
  next
    case connected
    then show ?thesis by simp
  qed
  from ids run show ?thesis
  proof (cases rule: with_connection_success)
    case (found r x)
    then show ?thesis
      by (simp add: update_conv')
  next
    case (created x)
    then show ?thesis
      by (simp add: update_conv' same_place_def)
  qed
qed

section \<open>load_data on the example\<close>

lemma example_params:
  "reading_params example_postgres (example_reading j @ [(''location_id'', PInt 1)]) =
     and_then (float_param example_postgres (Some (PJson j))) (\<lambda>v. Inr (example_row v))"
  by (cases "float_param example_postgres (Some (PJson j))")
    (simp_all add: reading_params_def example_reading_def example_row_def example_postgres_def
      stored_def)

lemma example_update:
  "AList.update ''location_id'' (PInt n) (example_reading j) =
     example_reading j @ [(''location_id'', PInt n)]"
  by (simp add: example_reading_def)

lemma example_select:
  "select_location_id (connect empty_store) savannah = Inr None"
  "select_location_id (connect (example_store rows)) savannah = Inr (Some 1)"
  by (simp_all add: select_location_id_def connect_def empty_store_def example_store_def
      savannah_row_def savannah_def same_place_def)

lemma example_insert_location:
  "insert_location (connect empty_store) savannah =
     (1, \<lparr>committed = empty_store, working = example_store []\<rparr>)"
  by (simp add: insert_location_def connect_def empty_store_def example_store_def
      savannah_row_def savannah_def)

lemma example_upsert:
  "upsert_row (example_row v) [] = [example_row v]"
  "upsert_row (example_row v) [example_row u] = [example_row v]"
  by (simp_all add: upsert_row_def conflicts_def do_update_def example_row_def)

lemma example_insert_reading:
  "insert_reading example_postgres \<lparr>committed = c, working = example_store rows\<rparr>
       (example_reading j @ [(''location_id'', PInt 1)]) =
     and_then (float_param example_postgres (Some (PJson j))) (\<lambda>v.
       Inr \<lparr>committed = c, working = example_store (upsert_row (example_row v) rows)\<rparr>)"
  by (cases "float_param example_postgres (Some (PJson j))")
    (simp_all add: insert_reading_def example_params example_store_def del: One_nat_def)

lemma example_first_block:
  "load_block example_postgres (connect empty_store) savannah (example_reading j) =
     (case float_param example_postgres (Some (PJson j)) of
        Inl e \<Rightarrow> (Some e, example_reading j @ [(''location_id'', PInt 1)],
                  \<lparr>committed = empty_store, working = example_store []\<rparr>)
      | Inr v \<Rightarrow> (None, example_reading j @ [(''location_id'', PInt 1)],
                  \<lparr>committed = example_store [example_row v],
                   working = example_store [example_row v]\<rparr>))"
  by (cases "float_param example_postgres (Some (PJson j))")
    (simp_all add: load_block_def example_select example_insert_location example_update
      example_insert_reading example_upsert commit_def Let_def del: One_nat_def)

lemma example_next_block:
  "load_block example_postgres (connect (example_store [example_row u])) savannah
       (example_reading j) =
     (case float_param example_postgres (Some (PJson j)) of
        Inl e \<Rightarrow> (Some e, example_reading j @ [(''location_id'', PInt 1)],
                  connect (example_store [example_row u]))
      | Inr v \<Rightarrow> (None, example_reading j @ [(''location_id'', PInt 1)],
                  \<lparr>committed = example_store [example_row v],
                   working = example_store [example_row v]\<rparr>))"
proof -
  have c: "connect (example_store [example_row u]) =
      \<lparr>committed = example_store [example_row u], working = example_store [example_row u]\<rparr>"
    by (simp add: connect_def)
  show ?thesis
    by (cases "float_param example_postgres (Some (PJson j))")
      (simp_all add: load_block_def example_select example_update Let_def del: One_nat_def,
       simp_all add: c example_insert_reading example_upsert commit_def del: One_nat_def)
qed

lemma example_first_load:
  assumes "float_param example_postgres (Some (PJson j)) = Inr v"
  shows "with_connection example_postgres empty_store savannah (example_reading j) =
     (None, example_reading j @ [(''location_id'', PInt 1)], example_store [example_row v])"
  using assms
  by (simp add: with_connection_def example_first_block close_def del: One_nat_def)

lemma example_next_load:
  assumes "float_param example_postgres (Some (PJson j)) = Inr v"
  shows "with_connection example_postgres (example_store [example_row u]) savannah (example_reading j) =
     (None, example_reading j @ [(''location_id'', PInt 1)], example_store [example_row v])"
  using assms
  by (simp add: with_connection_def example_next_block close_def del: One_nat_def)

lemma example_failed_load:
  assumes "float_param example_postgres (Some (PJson j)) = Inl e"
  shows "with_connection example_postgres empty_store savannah (example_reading j) =
     (Some e, example_reading j @ [(''location_id'', PInt 1)],
      empty_store\<lparr>locations_id_seq := 2\<rparr>)"
    and "with_connection example_postgres (example_store [example_row u]) savannah (example_reading j) =
     (Some e, example_reading j @ [(''location_id'', PInt 1)], example_store [example_row u])"
  using assms
  by (simp_all add: with_connection_def example_first_block example_next_block close_def
      del: One_nat_def)
    (simp_all add: connect_def example_store_def empty_store_def)

lemma example_reading_nonempty:
  "example_reading j \<noteq> []" "map_of (example_reading j) ''reading_date'' = Some (PDate 739194)"
  by (simp_all add: example_reading_def)

lemma example_store_ok: "store_ok empty_store" "store_ok (example_store [example_row v])"
  by (simp_all add: store_ok_def references_ok_def empty_store_def example_store_def
      savannah_row_def example_row_def)

section \<open>What load_data leaves in the store\<close>







lemma example_values:
  "float_param example_postgres (Some (PJson (JNum 5))) = Inr (Some (Finite 5))"
  "float_param example_postgres (Some (PJson JNull)) = Inr None"
  "float_param example_postgres (Some (PJson (JObj [(''value'', JNum 42)]))) = Inl StatementError"
  by (simp_all add: example_postgres_def stored_def)




text \<open>
  C7. A call of \<^verbatim>\<open>load_data\<close> of either script (\<open>h\<close> tells which) either raises, and then
  both tables are as they were before the call, the row of a location inserted on the
  way included; or it returns, and then, the reading not being empty, the table of
  locations holds a row for the place of the call and the table of readings a row of the
  reading that bears the identifier of that row. So if every reading referred to a row of
  \<^verbatim>\<open>locations\<close> before the call, every reading does after it.
\<close>

theorem load_data_one_transaction:
  assumes "call_load pg s (h, loc, rd) = (err, rd', s')"
  shows "(err \<noteq> None \<longrightarrow> locations s' = locations s \<and> daily_readings s' = daily_readings s) \<and>
         (err = None \<and> rd \<noteq> [] \<longrightarrow>
            (\<exists>r \<in> set (locations s'). same_place loc r \<and>
               (\<exists>x \<in> set (daily_readings s').
                  reading_params pg rd' = Inr x \<and> location_id x = loc_id r))) \<and>
         (references_ok s \<longrightarrow> references_ok s')"
  using assms
proof (cases rule: call_load_cases)
  case returned
  then show ?thesis by auto
next
  case connected
  from connected(2) have refs: "references_ok s \<longrightarrow> references_ok s'"
    by (auto intro: with_connection_references)
  from connected(2) show ?thesis
  proof (cases rule: with_connection_cases)
    case (failed e)
    with refs show ?thesis by simp
  next
    case (found r x)
    then have "location_id x = loc_id r"
      by (auto dest: reading_params_updated)
    moreover from found(2) have "r \<in> set (filter (same_place loc) (locations s))"
      by simp
    moreover from found(5) have "x \<in> set (daily_readings s')"
      by (simp add: upsert_row_member)
    ultimately show ?thesis
      using refs found(1,4,6) by auto
  next
    case (created x)
    then have "location_id x = locations_id_seq s"
      by (auto dest: reading_params_updated)
    moreover from created(4) have "x \<in> set (daily_readings s')"
      by (simp add: upsert_row_member)
    ultimately show ?thesis
      using refs created(1,3,5) by (auto simp: same_place_def)
  qed
qed

text \<open>
  A call that fails between its two statements: for Savannah and empty tables the row of
  the location is inserted, then the reading, whose \<^verbatim>\<open>aqi\<close> is a dictionary, is refused.
  Both tables are empty afterwards; only the sequence has moved on.
\<close>

theorem load_data_one_transaction_witness:
  "call_load example_postgres empty_store
       (False, savannah, example_reading (JObj [(''value'', JNum 42)])) =
     (Some StatementError,
      example_reading (JObj [(''value'', JNum 42)]) @ [(''location_id'', PInt 1)],
      empty_store\<lparr>locations_id_seq := 2\<rparr>) \<and>
   locations (empty_store\<lparr>locations_id_seq := 2\<rparr>) = locations empty_store \<and>
   daily_readings (empty_store\<lparr>locations_id_seq := 2\<rparr>) = daily_readings empty_store \<and>
   locations empty_store = [] \<and> daily_readings empty_store = [] \<and>
   references_ok empty_store \<and> references_ok (empty_store\<lparr>locations_id_seq := 2\<rparr>)"
proof -
  have c: "call_load example_postgres empty_store
       (False, savannah, example_reading (JObj [(''value'', JNum 42)])) =
     (Some StatementError,
      example_reading (JObj [(''value'', JNum 42)]) @ [(''location_id'', PInt 1)],
      empty_store\<lparr>locations_id_seq := 2\<rparr>)"
    using example_failed_load(1) [OF example_values(3)]
    by (simp add: call_load_def load_data_def example_reading_nonempty del: One_nat_def)
  have r: "references_ok empty_store"
    by (simp add: references_ok_def empty_store_def)
  from load_data_one_transaction [OF c] r
  have "locations (empty_store\<lparr>locations_id_seq := 2\<rparr>) = locations empty_store \<and>
    daily_readings (empty_store\<lparr>locations_id_seq := 2\<rparr>) = daily_readings empty_store \<and>
    references_ok (empty_store\<lparr>locations_id_seq := 2\<rparr>)"
    by simp
  moreover have "locations empty_store = []" "daily_readings empty_store = []"
    by (simp_all add: empty_store_def)
  ultimately show ?thesis
    using c r by simp
qed

text \<open>
  C4. Let the store be one that the scripts could have filled (\<open>store_ok\<close>), and take two
  calls of \<^verbatim>\<open>load_data\<close>, of either script, for the same city and country, each with a
  reading that is not empty and each returning without an exception, with any calls of
  \<^verbatim>\<open>load_data\<close> whatever between them, failed ones included, all one after the other. Then
  the two calls set the same \<^verbatim>\<open>location_id\<close>, the table of locations holds exactly one row
  for that city and country after the second, which bears that identifier, and after each
  of the two calls every reading in the table refers to a row of \<^verbatim>\<open>locations\<close>.
\<close>

theorem location_resolution_stable:
  assumes "store_ok s"
    and "call_load pg s (h1, loc1, rd1) = (None, rd1', s1)" and "rd1 \<noteq> []"
    and "call_load pg (after_calls pg s1 cs) (h2, loc2, rd2) = (None, rd2', s2)" and "rd2 \<noteq> []"
    and "city loc2 = city loc1" and "country loc2 = country loc1"
  shows "\<exists>r. filter (same_place loc1) (locations s2) = [r] \<and>
           map_of rd1' ''location_id'' = Some (PInt (loc_id r)) \<and>
           map_of rd2' ''location_id'' = Some (PInt (loc_id r)) \<and>
           references_ok s1 \<and> references_ok s2"
proof -
  from call_load_success [OF assms(1,2,3)] obtain r1 where
    r1: "filter (same_place loc1) (locations s1) = [r1]"
    and id1: "map_of rd1' ''location_id'' = Some (PInt (loc_id r1))"
    by blast
  from call_load_store_ok [OF assms(1,2)] have ok1: "store_ok s1"
    by simp
  from after_calls_store_ok [OF ok1, of pg cs] obtain new where
    ok: "store_ok (after_calls pg s1 cs)"
    and grow: "locations (after_calls pg s1 cs) = locations s1 @ new"
    by blast
  from r1 have "r1 \<in> set (filter (same_place loc1) (locations s1))"
    by simp
  then have mem: "r1 \<in> set (locations (after_calls pg s1 cs))" and sp: "same_place loc1 r1"
    by (simp_all add: grow)
  from ok have "distinct (map place (locations (after_calls pg s1 cs)))"
    by (simp add: store_ok_def)
  from filter_of_place [OF this mem sp]
  have mid: "filter (same_place loc1) (locations (after_calls pg s1 cs)) = [r1]" .
  have same: "same_place loc2 = same_place loc1"
    using assms(6,7) by (simp add: same_place_def fun_eq_iff)
  from call_load_success [OF ok assms(4,5)] mid obtain r2 where
    r2: "filter (same_place loc1) (locations s2) = [r2]"
    and id2: "map_of rd2' ''location_id'' = Some (PInt (loc_id r2))"
    and eq: "r2 = r1"
    unfolding same by auto
  from call_load_store_ok [OF ok assms(4)] have "store_ok s2"
    by simp
  with ok1 have "references_ok s1" "references_ok s2"
    by (simp_all add: store_ok_def)
  with r2 id1 id2 eq show ?thesis
    by blast
qed

text \<open>
  Three calls for Savannah on empty tables: etl.py loads the reading of the example,
  historical_backfill.py fails on a reading whose \<^verbatim>\<open>aqi\<close> is a dictionary, then loads a
  reading without an \<^verbatim>\<open>aqi\<close>. The first and the third set \<^verbatim>\<open>location_id = 1\<close>, and the table
  holds the one row of Savannah.
\<close>

theorem location_resolution_stable_witness:
  "store_ok empty_store \<and>
   call_load example_postgres empty_store (False, savannah, example_reading (JNum 5)) =
     (None, example_reading (JNum 5) @ [(''location_id'', PInt 1)],
      example_store [example_row (Some (Finite 5))]) \<and>
   after_calls example_postgres (example_store [example_row (Some (Finite 5))])
       [(True, savannah, example_reading (JObj [(''value'', JNum 42)]))] =
     example_store [example_row (Some (Finite 5))] \<and>
   call_load example_postgres (example_store [example_row (Some (Finite 5))])
       (True, savannah, example_reading JNull) =
     (None, example_reading JNull @ [(''location_id'', PInt 1)], example_store [example_row None]) \<and>
   filter (same_place savannah) (locations (example_store [example_row None])) = [savannah_row] \<and>
   map_of (example_reading (JNum 5) @ [(''location_id'', PInt 1)]) ''location_id'' =
     Some (PInt (loc_id savannah_row)) \<and>
   map_of (example_reading JNull @ [(''location_id'', PInt 1)]) ''location_id'' =
     Some (PInt (loc_id savannah_row)) \<and>
   references_ok (example_store [example_row None])"
proof -
  have c1: "call_load example_postgres empty_store (False, savannah, example_reading (JNum 5)) =
     (None, example_reading (JNum 5) @ [(''location_id'', PInt 1)],
      example_store [example_row (Some (Finite 5))])"
    using example_first_load [OF example_values(1)]
    by (simp add: call_load_def load_data_def example_reading_nonempty del: One_nat_def)
  have mid: "after_calls example_postgres (example_store [example_row (Some (Finite 5))])
       [(True, savannah, example_reading (JObj [(''value'', JNum 42)]))] =
     example_store [example_row (Some (Finite 5))]"
    using example_failed_load(2) [OF example_values(3), of "Some (Finite 5)"]
    by (simp add: call_load_def load_data_historical_def example_reading_nonempty
        del: One_nat_def)
  have c2: "call_load example_postgres (example_store [example_row (Some (Finite 5))])
       (True, savannah, example_reading JNull) =
     (None, example_reading JNull @ [(''location_id'', PInt 1)], example_store [example_row None])"
    using example_next_load [OF example_values(2), of "Some (Finite 5)"]
    by (simp add: call_load_def load_data_historical_def example_reading_nonempty
        del: One_nat_def)
  have f: "filter (same_place savannah) (locations (example_store [example_row None])) =
      [savannah_row]"
    by (simp add: example_store_def same_place_def savannah_def savannah_row_def)
  have c2': "call_load example_postgres
       (after_calls example_postgres (example_store [example_row (Some (Finite 5))])
          [(True, savannah, example_reading (JObj [(''value'', JNum 42)]))])
       (True, savannah, example_reading JNull) =
     (None, example_reading JNull @ [(''location_id'', PInt 1)], example_store [example_row None])"
    unfolding mid by (rule c2)
  from location_resolution_stable [OF example_store_ok(1) c1 example_reading_nonempty(1)
      c2' example_reading_nonempty(1) refl refl]
  obtain r where "filter (same_place savannah) (locations (example_store [example_row None])) = [r]"
    and "map_of (example_reading (JNum 5) @ [(''location_id'', PInt 1)]) ''location_id'' =
     Some (PInt (loc_id r))"
    and "map_of (example_reading JNull @ [(''location_id'', PInt 1)]) ''location_id'' =
     Some (PInt (loc_id r))"
    and "references_ok (example_store [example_row None])"
    by blast
  with f have "map_of (example_reading (JNum 5) @ [(''location_id'', PInt 1)]) ''location_id'' =
     Some (PInt (loc_id savannah_row))"
    "map_of (example_reading JNull @ [(''location_id'', PInt 1)]) ''location_id'' =
     Some (PInt (loc_id savannah_row))"
    "references_ok (example_store [example_row None])"
    by simp_all
  with example_store_ok(1) c1 mid c2 f show ?thesis
    by blast
qed

section \<open>The runs\<close>

lemma run_units_skips:
  assumes "\<And>u s. body u s = (None, s, f u)"
  shows "run_units body us s tr = (None, s, tr @ concat (map f us))"
  by (induction us arbitrary: tr) (simp_all add: assms)

lemma etl_unit_no_key:
  assumes "no_key e"
  shows "etl_unit e l s = (None, s, [WeatherRequest l None, Merge l None])"
  using assms
  by (simp add: etl_unit_def fetch_air_quality_data_def fetch_weather_data_def
      transform_data_def)

lemma backfill_unit_no_key:
  assumes "no_key e"
  shows "backfill_unit e u s =
    (None, s, case u of (d, l) \<Rightarrow>
       [WeatherRequest l (Some (ordinal d)), Merge l (Some (ordinal d))])"
  using assms
  by (cases u)
    (simp add: backfill_unit_def fetch_historical_aqi_data_def fetch_weather_archive_def
      transform_historical_data_def Let_def)

lemma etl_main_no_key:
  assumes "no_key e"
  shows "etl_main e s =
    (None, s,
     if store_reachable e
     then concat (map (\<lambda>l. [WeatherRequest l None, Merge l None]) LOCATIONS) else [])"
  using run_units_skips [of "etl_unit e" "\<lambda>l. [WeatherRequest l None, Merge l None]"
      LOCATIONS s "[]"] etl_unit_no_key [OF assms]
  by (simp add: etl_main_def)

lemma backfill_main_no_key:
  assumes "no_key e"
  shows "backfill_main e s =
    (None, s,
     if store_reachable e
     then concat (map (\<lambda>(d, l). [WeatherRequest l (Some (ordinal d)), Merge l (Some (ordinal d))])
                    (backfill_units (now e)))
     else [])"
  using run_units_skips [of "backfill_unit e"
      "\<lambda>(d, l). [WeatherRequest l (Some (ordinal d)), Merge l (Some (ordinal d))]"
      "backfill_units (now e)" s "[]"] backfill_unit_no_key [OF assms]
  by (simp add: backfill_main_def)

lemma keyless: "no_key keyless_env" "store_reachable keyless_env"
  by (simp_all add: no_key_def keyless_env_def example_env_def)

lemma events_length: "length (concat (map (\<lambda>(d, l). [f d l, g d l]) us)) = 2 * length us"
  by (induction us) auto

lemma backfill_units_length: "length (backfill_units today) = 84"
  by (simp add: backfill_units_def length_concat comp_def sum_list_triv LOCATIONS_def
      DAYS_OF_HISTORY_def)

text \<open>
  C6, as the code has it. Without the credential (the variable unset or empty) a run
  does not halt and raises nothing: provided the store is reachable it goes through every
  unit of work, and each unit sends no air-quality request, sends its weather request all
  the same and calls the merge, which is given \<^verbatim>\<open>None\<close> and returns \<^verbatim>\<open>None\<close>; \<^verbatim>\<open>load_data\<close> is
  never called, and the store is as it was.
\<close>

theorem missing_key_skips_every_unit:
  assumes "no_key e"
  shows "etl_main e s =
           (None, s,
            if store_reachable e
            then concat (map (\<lambda>l. [WeatherRequest l None, Merge l None]) LOCATIONS) else []) \<and>
         backfill_main e s =
           (None, s,
            if store_reachable e
            then concat (map (\<lambda>(d, l). [WeatherRequest l (Some (ordinal d)),
                                        Merge l (Some (ordinal d))])
                           (backfill_units (now e)))
            else [])"
  using etl_main_no_key [OF assms] backfill_main_no_key [OF assms] by simp

text \<open>
  The run of etl.py in the environment of the example without the key: six events, a
  weather request and a merge for each of the three locations.
\<close>

theorem missing_key_skips_every_unit_witness:
  "no_key keyless_env \<and>
   etl_main keyless_env empty_store =
     (None, empty_store,
      [WeatherRequest (LOCATIONS ! 0) None, Merge (LOCATIONS ! 0) None,
       WeatherRequest (LOCATIONS ! 1) None, Merge (LOCATIONS ! 1) None,
       WeatherRequest (LOCATIONS ! 2) None, Merge (LOCATIONS ! 2) None]) \<and>
   length (snd (snd (backfill_main keyless_env empty_store))) = 168"
proof -
  have "length (concat (map (\<lambda>(d, l). [WeatherRequest l (Some (ordinal d)),
                                        Merge l (Some (ordinal d))])
                           (backfill_units (now keyless_env)))) = 168"
    by (simp add: events_length backfill_units_length)
  with missing_key_skips_every_unit [OF keyless(1), of empty_store] keyless show ?thesis
    by (simp add: LOCATIONS_def)
qed

text \<open>
  The claim as stated fails: without the key the run of etl.py does not halt before any
  fetch. It still sends the weather request of every location and calls the merge for it.
\<close>

theorem missing_key_does_not_halt:
  "GOOGLE_API_KEY keyless_env = None \<and>
   etl_main keyless_env empty_store =
     (None, empty_store,
      [WeatherRequest (LOCATIONS ! 0) None, Merge (LOCATIONS ! 0) None,
       WeatherRequest (LOCATIONS ! 1) None, Merge (LOCATIONS ! 1) None,
       WeatherRequest (LOCATIONS ! 2) None, Merge (LOCATIONS ! 2) None])"
  using etl_main_no_key [OF keyless(1), of empty_store] keyless(2)
  by (simp add: LOCATIONS_def keyless_env_def example_env_def)

lemma failing_transform:
  "transform_data example_clock unstorable_aqi example_weather =
     Inr (Some (example_reading (JObj [(''value'', JNum 42)])))"
proof -
  have "transform_body example_clock unstorable_aqi example_weather =
      Inr (example_reading (JObj [(''value'', JNum 42)]))"
    by (simp add: transform_body_def example_weather_fields unstorable_aqi_def
        example_index_def example_pollutant_def pollutant_entry_def table_get_def
        example_reading_def example_clock_def)
  then show ?thesis
    by (simp add: transform_data_def example_truthy)
qed

lemma failing_unit:
  "etl_unit failing_env savannah empty_store =
     (Some StatementError, empty_store\<lparr>locations_id_seq := 2\<rparr>,
      [AqiRequest savannah None, WeatherRequest savannah None, Merge savannah None,
       Upsert savannah None])"
proof -
  have e: "no_key failing_env = False" "now failing_env = example_clock"
    "aqi_current failing_env savannah = Some unstorable_aqi"
    "weather_forecast failing_env savannah = Some example_weather"
    "env_postgres failing_env = example_postgres"
    by (simp_all add: failing_env_def example_env_def no_key_def)
  have l: "load_data example_postgres empty_store savannah
        (example_reading (JObj [(''value'', JNum 42)])) =
      (Some StatementError,
       example_reading (JObj [(''value'', JNum 42)]) @ [(''location_id'', PInt 1)],
       empty_store\<lparr>locations_id_seq := 2\<rparr>)"
    using example_failed_load(1) [OF example_values(3)]
    by (simp add: load_data_def example_reading_nonempty del: One_nat_def)
  show ?thesis
    by (simp add: etl_unit_def fetch_air_quality_data_def fetch_weather_data_def e response_def
        failing_transform example_reading_nonempty l del: One_nat_def)
qed

text \<open>
  C1. The claim fails in the code. In a run of etl.py the air-quality response of the
  first location, Savannah, has a dictionary for the value of its index, which the
  statement of \<^verbatim>\<open>load_data\<close> cannot bind. The exception of \<^verbatim>\<open>load_data\<close> is caught nowhere:
  it ends the run, and the other two of the three locations are neither fetched, merged
  nor upserted.
\<close>

theorem persistence_error_ends_run:
  "etl_main failing_env empty_store =
     (Some StatementError, empty_store\<lparr>locations_id_seq := 2\<rparr>,
      [AqiRequest savannah None, WeatherRequest savannah None, Merge savannah None,
       Upsert savannah None]) \<and>
   LOCATIONS ! 0 = savannah \<and> length LOCATIONS = 3"
proof -
  have l: "LOCATIONS = savannah # tl LOCATIONS"
    by (simp add: LOCATIONS_def savannah_def)
  have "store_reachable failing_env"
    by (simp add: failing_env_def example_env_def)
  then have "etl_main failing_env empty_store =
      run_units (etl_unit failing_env) (savannah # tl LOCATIONS) empty_store []"
    using l by (simp add: etl_main_def)
  then show ?thesis
    by (simp add: failing_unit) (simp add: LOCATIONS_def savannah_def)
qed
end
